theory Spec2Isabelle
  imports Main
begin

section \<open>Session lifecycle over an external key-value cache\<close>

text \<open>
  The session module keeps one record per session in a Redis store, three reverse sets
  (by role, by user, by workspace), three forward hashes and one refresh-token entry per
  session. Every function of the module is embedded below with explicit state passing:
  a function takes the request context (which holds the store) and returns the updated
  one. A function that can throw returns a sum, \<open>Inl\<close> being the exception; the state
  reached at the throw is not tracked.

  The collaborators the module calls but does not define (cookie parsing and unsigning,
  JWT signing and verification, URL parsing, the ObjectId constructor and the four
  document collections) are fields of the record \<open>Services\<close>: every theorem holds for
  all of their behaviours unless it states a hypothesis about them. Redis round-trips
  themselves are taken to succeed.
\<close>

subsection \<open>Errors\<close>

datatype error =
    NotFound string      \<comment> \<open>\<open>errors.notFound(...)\<close>, thrown by the loader\<close>
  | SyntaxError          \<comment> \<open>\<open>JSON.parse\<close> on a value that is not JSON\<close>
  | Thrown string        \<comment> \<open>an exception raised inside a collaborator\<close>

subsection \<open>Session data\<close>

record SessionData =
  workspaceId :: string
  userId :: string
  roleId :: string
  permissions :: "string list"
  baseType :: "string option"
  subscriptionStatus :: "string option"
  subscriptionPlan :: "string option"

subsection \<open>The Redis store\<close>

text \<open>
  A Redis string value is either the \<open>JSON.stringify\<close> image of a session record or
  another string (the module stores signed tokens). \<open>JSON_parse\<close> inverts
  \<open>JSON.stringify\<close> on the former and throws on the latter. Strings carry the TTL
  they were written with, in seconds. Redis has one keyspace; the key families of this
  module (\<open>session:{id}\<close> and \<open>refreshToken:{id}\<close> strings, \<open>*:sessions\<close> sets and
  the three \<open>session:*\<close> hashes) are kept in one component per value kind. A set is a
  duplicate-free list, the order in which \<open>smembers\<close> returns it.
\<close>

datatype redis_string = Json SessionData | Plain string

record Redis =
  strings :: "string \<rightharpoonup> redis_string \<times> nat"
  sets :: "string \<Rightarrow> string list"
  hashes :: "string \<Rightarrow> string \<rightharpoonup> string"

definition JSON_parse :: "redis_string \<Rightarrow> error + SessionData" where
  "JSON_parse v = (case v of Json d \<Rightarrow> Inr d | Plain s \<Rightarrow> Inl SyntaxError)"

definition truthy :: "redis_string option \<Rightarrow> bool" where
  \<comment> \<open>JavaScript truthiness of \<open>string | null\<close>: null and the empty string are falsy\<close>
  "truthy v = (case v of None \<Rightarrow> False | Some (Json d) \<Rightarrow> True | Some (Plain s) \<Rightarrow> s \<noteq> [])"

definition redis_get :: "Redis \<Rightarrow> string \<Rightarrow> redis_string option" where
  "redis_get r k = map_option fst (strings r k)"

definition redis_set :: "Redis \<Rightarrow> string \<Rightarrow> redis_string \<Rightarrow> nat \<Rightarrow> Redis" where
  \<comment> \<open>\<open>SET k v EX ttl\<close>\<close>
  "redis_set r k v ttl = r\<lparr>strings := (strings r)(k \<mapsto> (v, ttl))\<rparr>"

definition redis_del :: "Redis \<Rightarrow> string \<Rightarrow> Redis" where
  "redis_del r k = r\<lparr>strings := (strings r)(k := None)\<rparr>"

definition redis_exists :: "Redis \<Rightarrow> string \<Rightarrow> bool" where
  "redis_exists r k = (strings r k \<noteq> None)"

definition redis_expire :: "Redis \<Rightarrow> string \<Rightarrow> nat \<Rightarrow> Redis" where
  "redis_expire r k ttl =
     (case strings r k of
        None \<Rightarrow> r
      | Some (v, old) \<Rightarrow> r\<lparr>strings := (strings r)(k \<mapsto> (v, ttl))\<rparr>)"

definition redis_sadd :: "Redis \<Rightarrow> string \<Rightarrow> string \<Rightarrow> Redis" where
  "redis_sadd r k m =
     r\<lparr>sets := (sets r)(k := (if m \<in> set (sets r k) then sets r k else sets r k @ [m]))\<rparr>"

definition redis_srem :: "Redis \<Rightarrow> string \<Rightarrow> string \<Rightarrow> Redis" where
  "redis_srem r k m = r\<lparr>sets := (sets r)(k := removeAll m (sets r k))\<rparr>"

definition redis_smembers :: "Redis \<Rightarrow> string \<Rightarrow> string list" where
  "redis_smembers r k = sets r k"

definition redis_hset :: "Redis \<Rightarrow> string \<Rightarrow> string \<Rightarrow> string \<Rightarrow> Redis" where
  "redis_hset r k f v = r\<lparr>hashes := (hashes r)(k := (hashes r k)(f \<mapsto> v))\<rparr>"

definition redis_hget :: "Redis \<Rightarrow> string \<Rightarrow> string \<Rightarrow> string option" where
  "redis_hget r k f = hashes r k f"

definition redis_hdel :: "Redis \<Rightarrow> string \<Rightarrow> string \<Rightarrow> Redis" where
  "redis_hdel r k f = r\<lparr>hashes := (hashes r)(k := (hashes r k)(f := None))\<rparr>"

definition session_key :: "string \<Rightarrow> string" where
  "session_key sid = ''session:'' @ sid"

definition refreshToken_key :: "string \<Rightarrow> string" where
  "refreshToken_key sid = ''refreshToken:'' @ sid"

definition role_sessions :: "string \<Rightarrow> string" where
  "role_sessions rid = ''role:'' @ rid @ '':sessions''"

definition user_sessions :: "string \<Rightarrow> string" where
  "user_sessions uid = ''user:'' @ uid @ '':sessions''"

definition workspace_sessions :: "string \<Rightarrow> string" where
  "workspace_sessions wid = ''workspace:'' @ wid @ '':sessions''"

subsection \<open>Request context and collaborators\<close>

record Socket =
  sessionId :: "string option"   \<comment> \<open>the optional \<open>sessionId\<close> property of the socket\<close>
  dataListeners :: nat           \<comment> \<open>how many \<open>"data"\<close> listeners were registered\<close>

record CookieOptions =
  httpOnly :: bool
  sameSite :: bool
  signed :: bool
  secure :: bool
  domain :: string
  path :: string
  maxAge :: nat

datatype cookie_action =
    SetCookie string string CookieOptions   \<comment> \<open>name, value, options\<close>
  | ClearCookie string string string        \<comment> \<open>name, path, domain\<close>

record Context =
  socket :: "Socket option"             \<comment> \<open>\<open>ctx.req.socket\<close>\<close>
  cookieHeader :: "string option"       \<comment> \<open>\<open>ctx.req.headers.cookie\<close>\<close>
  redis :: Redis                        \<comment> \<open>\<open>ctx.fastify.redis\<close>\<close>
  resCookies :: "cookie_action list"    \<comment> \<open>what \<open>ctx.res\<close> was told, in order\<close>
  logged :: "error list"                \<comment> \<open>\<open>ctx.fastify.log.error\<close>\<close>
  now :: nat                            \<comment> \<open>the time of the request, in seconds\<close>

record UserSettings =
  currentWorkspaceId :: string

record WorkspaceMembership =
  membership_roleId :: string

record Workspace =
  workspace_id :: string
  workspace_subscriptionStatus :: "string option"
  workspace_subscriptionPlan :: "string option"

record FullRole =
  role_id :: string
  role_permissions :: "string list"
  role_baseType :: "string option"

record Services =
  parseCookie :: "string \<Rightarrow> error + (string \<rightharpoonup> string)"
  unsignCookie :: "string \<Rightarrow> error + string option"
    \<comment> \<open>the \<open>value\<close> of the unsigning result; \<open>None\<close> when it is null or missing\<close>
  jwt_verify :: "nat \<Rightarrow> string \<Rightarrow> error + string"
    \<comment> \<open>time and token to the \<open>sessionId\<close> of the payload; throws on a bad signature or expiry\<close>
  jwtSign :: "nat \<Rightarrow> string \<Rightarrow> nat \<Rightarrow> error + string"
    \<comment> \<open>time, \<open>sessionId\<close> and \<open>expiresIn\<close> to a token\<close>
  URL_protocol :: "string \<Rightarrow> error + string"
    \<comment> \<open>\<open>new URL(s).protocol\<close>\<close>
  PUBLIC_API_URL :: string
  COOKIE_DOMAIN :: string
  new_ObjectId :: "string \<Rightarrow> error + string"
  userSettings_findOne :: "string \<Rightarrow> error + UserSettings option"
  workspaceMemberships_findOne :: "string \<Rightarrow> string \<Rightarrow> error + WorkspaceMembership option"
  workspaces_findOne :: "string \<Rightarrow> error + Workspace option"
  roles_findOne :: "string \<Rightarrow> error + FullRole option"

datatype TokenType = accessToken | refreshToken

definition tokenName :: "TokenType \<Rightarrow> string" where
  "tokenName t = (case t of accessToken \<Rightarrow> ''accessToken'' | refreshToken \<Rightarrow> ''refreshToken'')"

subsection \<open>getSessionId\<close>

definition socket_sessionId :: "Context \<Rightarrow> string option" where
  \<comment> \<open>\<open>ctx.req.socket && ctx.req.socket.sessionId\<close>, when truthy\<close>
  "socket_sessionId ctx =
     (case socket ctx of
        None \<Rightarrow> None
      | Some s \<Rightarrow>
          (case sessionId s of
             None \<Rightarrow> None
           | Some sid \<Rightarrow> if sid = [] then None else Some sid))"

definition remember_on_socket :: "Context \<Rightarrow> string \<Rightarrow> Context" where
  "remember_on_socket ctx sid =
     (case socket ctx of
        None \<Rightarrow> ctx
      | Some s \<Rightarrow>
          ctx\<lparr>socket := Some (s\<lparr>sessionId := Some sid, dataListeners := Suc (dataListeners s)\<rparr>)\<rparr>)"

definition getSessionId_try :: "Services \<Rightarrow> Context \<Rightarrow> TokenType \<Rightarrow> error + (string option \<times> Context)" where
  \<comment> \<open>the body of the \<open>try\<close> block\<close>
  "getSessionId_try svc ctx tokenType =
     (case parseCookie svc (case cookieHeader ctx of None \<Rightarrow> [] | Some h \<Rightarrow> h) of
        Inl e \<Rightarrow> Inl e
      | Inr cookies \<Rightarrow>
          (case cookies (tokenName tokenType) of
             None \<Rightarrow> Inr (None, ctx)
           | Some c \<Rightarrow>
               if c = [] then Inr (None, ctx)
               else
                 (case unsignCookie svc c of
                    Inl e \<Rightarrow> Inl e
                  | Inr v \<Rightarrow>
                      let token = (case v of None \<Rightarrow> [] | Some t \<Rightarrow> t) in
                      if token = [] then Inr (None, ctx)
                      else
                        (case jwt_verify svc (now ctx) token of
                           Inl e \<Rightarrow> Inl e
                         | Inr sid \<Rightarrow>
                             if tokenType = refreshToken
                                \<and> \<not> redis_exists (redis ctx) (refreshToken_key sid)
                             then Inr (None, ctx)
                             else Inr (Some sid, remember_on_socket ctx sid)))))"

definition getSessionId :: "Services \<Rightarrow> Context \<Rightarrow> TokenType \<Rightarrow> string option \<times> Context" where
  "getSessionId svc ctx tokenType =
     (case socket_sessionId ctx of
        Some sid \<Rightarrow> (Some sid, ctx)
      | None \<Rightarrow>
          (case getSessionId_try svc ctx tokenType of
             Inl e \<Rightarrow> (None, ctx)
           | Inr res \<Rightarrow> res))"

subsection \<open>loadSessionData\<close>

record Lookups =
  found_membership :: "WorkspaceMembership option"
  found_workspace :: "Workspace option"
  found_role :: "FullRole option"
  caught :: "error option"

definition lookups :: "WorkspaceMembership option \<Rightarrow> Workspace option \<Rightarrow> FullRole option
    \<Rightarrow> error option \<Rightarrow> Lookups" where
  "lookups m w r e = \<lparr>found_membership = m, found_workspace = w, found_role = r, caught = e\<rparr>"

definition load_lookups :: "Services \<Rightarrow> string \<Rightarrow> Lookups" where
  \<comment> \<open>the \<open>try\<close> block of the loader: the three variables as it leaves them, and the
      exception it caught, if any\<close>
  "load_lookups svc uid =
     (case new_ObjectId svc uid of
        Inl e \<Rightarrow> lookups None None None (Some e)
      | Inr u1 \<Rightarrow>
     (case userSettings_findOne svc u1 of
        Inl e \<Rightarrow> lookups None None None (Some e)
      | Inr None \<Rightarrow> lookups None None None (Some (NotFound ''userSettings''))
      | Inr (Some us) \<Rightarrow>
     (case new_ObjectId svc uid of
        Inl e \<Rightarrow> lookups None None None (Some e)
      | Inr u2 \<Rightarrow>
     (case new_ObjectId svc (currentWorkspaceId us) of
        Inl e \<Rightarrow> lookups None None None (Some e)
      | Inr w1 \<Rightarrow>
     (case workspaceMemberships_findOne svc u2 w1 of
        Inl e \<Rightarrow> lookups None None None (Some e)
      | Inr m \<Rightarrow>
     (case new_ObjectId svc (currentWorkspaceId us) of
        Inl e \<Rightarrow> lookups m None None (Some e)
      | Inr w2 \<Rightarrow>
     (case workspaces_findOne svc w2 of
        Inl e \<Rightarrow> lookups m None None (Some e)
      | Inr w \<Rightarrow>
     (case m of
        None \<Rightarrow> lookups None w None None
      | Some mem \<Rightarrow>
     (case roles_findOne svc (membership_roleId mem) of
        Inl e \<Rightarrow> lookups m w None (Some e)
      | Inr r \<Rightarrow> lookups m w r None)))))))))"

definition sessionData_from :: "Lookups \<Rightarrow> string \<Rightarrow> SessionData" where
  "sessionData_from l uid =
     \<lparr>workspaceId =
        (case found_workspace l of
           None \<Rightarrow> []
         | Some w \<Rightarrow> (case found_membership l of None \<Rightarrow> [] | Some m \<Rightarrow> workspace_id w)),
      userId = uid,
      roleId = (case found_role l of None \<Rightarrow> [] | Some r \<Rightarrow> role_id r),
      permissions = (case found_role l of None \<Rightarrow> [] | Some r \<Rightarrow> role_permissions r),
      baseType = (case found_role l of None \<Rightarrow> None | Some r \<Rightarrow> role_baseType r),
      subscriptionStatus =
        (case found_workspace l of None \<Rightarrow> None | Some w \<Rightarrow> workspace_subscriptionStatus w),
      subscriptionPlan =
        (case found_workspace l of None \<Rightarrow> None | Some w \<Rightarrow> workspace_subscriptionPlan w)\<rparr>"

definition loadSessionData :: "Services \<Rightarrow> Context \<Rightarrow> string \<Rightarrow> SessionData \<times> Context" where
  "loadSessionData svc ctx uid =
     (let l = load_lookups svc uid in
      (sessionData_from l uid,
       (case caught l of None \<Rightarrow> ctx | Some e \<Rightarrow> ctx\<lparr>logged := logged ctx @ [e]\<rparr>)))"

subsection \<open>createTokens\<close>

definition cookieOptions :: "Services \<Rightarrow> string \<Rightarrow> string \<Rightarrow> nat \<Rightarrow> CookieOptions" where
  \<comment> \<open>\<open>{...cookieOptions, path, maxAge}\<close>, given the protocol of the public URL\<close>
  "cookieOptions svc protocol p age =
     \<lparr>httpOnly = True, sameSite = True, signed = True,
      secure = (protocol = ''https:''),
      domain = COOKIE_DOMAIN svc, path = p, maxAge = age\<rparr>"

definition createTokens :: "Services \<Rightarrow> Context \<Rightarrow> string \<Rightarrow> error + Context" where
  "createTokens svc ctx sid =
     (case jwtSign svc (now ctx) sid (60 * 60 * 24) of
        Inl e \<Rightarrow> Inl e
      | Inr access \<Rightarrow>
     (case jwtSign svc (now ctx) sid (60 * 60 * 24 * 60) of
        Inl e \<Rightarrow> Inl e
      | Inr refresh \<Rightarrow>
     (case URL_protocol svc (PUBLIC_API_URL svc) of
        Inl e \<Rightarrow> Inl e
      | Inr protocol \<Rightarrow>
          Inr (ctx\<lparr>redis :=
                      redis_set (redis ctx) (refreshToken_key sid) (Plain refresh)
                        (60 * 60 * 24 * 60),
                    resCookies :=
                      resCookies ctx
                      @ [SetCookie ''refreshToken'' refresh
                           (cookieOptions svc protocol ''/session'' (60 * 60 * 24 * 60)),
                         SetCookie ''accessToken'' access
                           (cookieOptions svc protocol ''/'' (60 * 60 * 24))]\<rparr>))))"

subsection \<open>Writing, creating, refreshing and updating a session\<close>

definition setSession_redis :: "Redis \<Rightarrow> string \<Rightarrow> SessionData \<Rightarrow> Redis" where
  "setSession_redis r0 sid d =
     (let r1 = redis_set r0 (session_key sid) (Json d) (60 * 60 * 24 * 60);
          r2 = redis_sadd r1 (role_sessions (roleId d)) sid;
          r3 = redis_sadd r2 (user_sessions (userId d)) sid;
          r4 = redis_sadd r3 (workspace_sessions (workspaceId d)) sid;
          r5 = redis_hset r4 ''session:role'' sid (roleId d);
          r6 = redis_hset r5 ''session:user'' sid (userId d)
      in redis_hset r6 ''session:workspace'' sid (workspaceId d))"

definition setSession :: "Context \<Rightarrow> string \<Rightarrow> SessionData \<Rightarrow> Context" where
  "setSession ctx sid d = ctx\<lparr>redis := setSession_redis (redis ctx) sid d\<rparr>"

definition createSession :: "Services \<Rightarrow> Context \<Rightarrow> string \<Rightarrow> string \<Rightarrow> error + Context" where
  \<comment> \<open>the second string is the identifier \<open>nanoid()\<close> returned\<close>
  "createSession svc ctx uid sid =
     (case loadSessionData svc ctx uid of
        (d, ctx1) \<Rightarrow> createTokens svc (setSession ctx1 sid d) sid)"

definition refreshSession :: "Services \<Rightarrow> Context \<Rightarrow> string \<Rightarrow> error + Context" where
  "refreshSession svc ctx sid =
     (let sessionCache = redis_get (redis ctx) (session_key sid);
          ctx1 = ctx\<lparr>redis := redis_del (redis ctx) (refreshToken_key sid)\<rparr>
      in if truthy sessionCache
         then createTokens svc
                (ctx1\<lparr>redis := redis_expire (redis ctx1) (session_key sid) (60 * 60 * 24 * 60)\<rparr>)
                sid
         else Inr ctx1)"

definition updateSession :: "Services \<Rightarrow> Context \<Rightarrow> string \<Rightarrow> string \<Rightarrow> Context" where
  "updateSession svc ctx sid uid =
     (if truthy (redis_get (redis ctx) (session_key sid))
      then (case loadSessionData svc ctx uid of (d, ctx1) \<Rightarrow> setSession ctx1 sid d)
      else ctx)"

subsection \<open>Fan-out\<close>

definition updateSessionRole_body :: "Services \<Rightarrow> Context \<Rightarrow> string \<Rightarrow> Context" where
  \<comment> \<open>the body of the loop, for one member of the set\<close>
  "updateSessionRole_body svc ctx sid =
     (case redis_hget (redis ctx) ''session:user'' sid of
        None \<Rightarrow> ctx
      | Some uid \<Rightarrow> if uid = [] then ctx else updateSession svc ctx sid uid)"


definition updateSessionUser :: "Services \<Rightarrow> Context \<Rightarrow> string \<Rightarrow> Context" where
  "updateSessionUser svc ctx uid =
     foldl (\<lambda>c sid. updateSession svc c sid uid) ctx
       (redis_smembers (redis ctx) (user_sessions uid))"

definition updateSessionWorkspace :: "Services \<Rightarrow> Context \<Rightarrow> string \<Rightarrow> Context" where
  \<comment> \<open>the loop body is the one of \<open>updateSessionRole\<close>\<close>
  "updateSessionWorkspace svc ctx wid =
     foldl (updateSessionRole_body svc) ctx
       (redis_smembers (redis ctx) (workspace_sessions wid))"

subsection \<open>Switching the workspace, deleting\<close>

definition srem_indexed :: "Redis \<Rightarrow> string \<Rightarrow> SessionData \<Rightarrow> Redis" where
  \<comment> \<open>the three \<open>srem\<close> calls both functions make on the cached record\<close>
  "srem_indexed r0 sid d =
     (let r1 = redis_srem r0 (role_sessions (roleId d)) sid;
          r2 = redis_srem r1 (user_sessions (userId d)) sid
      in redis_srem r2 (workspace_sessions (workspaceId d)) sid)"

definition hdel_forward :: "Redis \<Rightarrow> string \<Rightarrow> Redis" where
  \<comment> \<open>the three \<open>hdel\<close> calls both functions make\<close>
  "hdel_forward r0 sid =
     (let r1 = redis_hdel r0 ''session:role'' sid;
          r2 = redis_hdel r1 ''session:user'' sid
      in redis_hdel r2 ''session:workspace'' sid)"

definition switchWorkspace_detach :: "Context \<Rightarrow> string \<Rightarrow> error + Context" where
  \<comment> \<open>\<open>switchWorkspaceSession\<close> from the read of the cached record up to the call of
      \<open>updateSession\<close>\<close>
  "switchWorkspace_detach ctx sid =
     (case redis_get (redis ctx) (session_key sid) of
        None \<Rightarrow> Inr (ctx\<lparr>redis := hdel_forward (redis ctx) sid\<rparr>)
      | Some sessionCache \<Rightarrow>
          if truthy (Some sessionCache)
          then (case JSON_parse sessionCache of
                  Inl e \<Rightarrow> Inl e
                | Inr d \<Rightarrow> Inr (ctx\<lparr>redis := hdel_forward (srem_indexed (redis ctx) sid d) sid\<rparr>))
          else Inr (ctx\<lparr>redis := hdel_forward (redis ctx) sid\<rparr>))"

definition switchWorkspaceSession :: "Services \<Rightarrow> Context \<Rightarrow> string \<Rightarrow> error + Context" where
  \<comment> \<open>the string is \<open>ctx.auth.userId\<close> of the authenticated context\<close>
  "switchWorkspaceSession svc ctx authUserId =
     (case getSessionId svc ctx accessToken of
        (None, ctx1) \<Rightarrow> Inr ctx1
      | (Some sid, ctx1) \<Rightarrow>
          if sid = [] then Inr ctx1
          else
            (case switchWorkspace_detach ctx1 sid of
               Inl e \<Rightarrow> Inl e
             | Inr ctx2 \<Rightarrow> Inr (updateSession svc ctx2 sid authUserId)))"

definition clearCookies :: "Services \<Rightarrow> cookie_action list" where
  "clearCookies svc =
     [ClearCookie ''refreshToken'' ''/session'' (COOKIE_DOMAIN svc),
      ClearCookie ''accessToken'' ''/'' (COOKIE_DOMAIN svc)]"

definition deleteSession_finish :: "Services \<Rightarrow> Context \<Rightarrow> string \<Rightarrow> Context" where
  \<comment> \<open>the unconditional tail of \<open>deleteSession\<close>\<close>
  "deleteSession_finish svc ctx sid =
     ctx\<lparr>redis := redis_del (hdel_forward (redis ctx) sid) (refreshToken_key sid),
         resCookies := resCookies ctx @ clearCookies svc\<rparr>"

definition deleteSession :: "Services \<Rightarrow> Context \<Rightarrow> string \<Rightarrow> error + Context" where
  "deleteSession svc ctx sid =
     (case redis_get (redis ctx) (session_key sid) of
        None \<Rightarrow> Inr (deleteSession_finish svc ctx sid)
      | Some sessionCache \<Rightarrow>
          if truthy (Some sessionCache)
          then (case JSON_parse sessionCache of
                  Inl e \<Rightarrow> Inl e
                | Inr d \<Rightarrow>
                    Inr (deleteSession_finish svc
                           (ctx\<lparr>redis :=
                                  srem_indexed (redis_del (redis ctx) (session_key sid)) sid d\<rparr>)
                           sid))
          else Inr (deleteSession_finish svc ctx sid))"

section \<open>The git-sync handler for an updated content piece\<close>

text \<open>
  The handler receives the synced directories and records and the updated content piece
  and returns the new directories and records. The contents collection, the output
  processor and the MD5 digest are collaborators, fields of \<open>GitSyncServices\<close>.
\<close>

record GitRecord =
  record_path :: string
  contentPieceId :: string
  currentHash :: string
  syncedHash :: string

record GitDirectory =
  directory_path :: string
  contentGroupId :: string

record ContentPiece =
  piece_id :: string
  piece_contentGroupId :: string
  filename :: "string option"

record ContentDoc =
  content :: "string option"   \<comment> \<open>the bytes of the stored buffer, when the field is there\<close>

record GitSyncServices =
  contents_findOne :: "string \<Rightarrow> error + ContentDoc option"
  process :: "string \<Rightarrow> ContentPiece \<Rightarrow> error + string"
  md5_hex :: "string \<Rightarrow> string"

record HandlerResult =
  directories :: "GitDirectory list"
  records :: "GitRecord list"

fun split_on :: "char \<Rightarrow> string \<Rightarrow> string list" where
  \<comment> \<open>\<open>s.split(c)\<close>: the empty string splits into one empty piece\<close>
  "split_on c [] = [[]]"
| "split_on c (x # xs) =
     (if x = c then [] # split_on c xs
      else (case split_on c xs of [] \<Rightarrow> [[x]] | w # ws \<Rightarrow> (x # w) # ws))"

fun join_with :: "string \<Rightarrow> string list \<Rightarrow> string" where
  "join_with sep [] = []"
| "join_with sep [w] = w"
| "join_with sep (w # ws) = w @ sep @ join_with sep ws"

definition newRecordPath :: "GitDirectory \<Rightarrow> ContentPiece \<Rightarrow> string" where
  "newRecordPath dir piece =
     join_with ''/''
       (filter (\<lambda>s. s \<noteq> [])
          (split_on (CHR ''/'') (directory_path dir)
           @ [case filename piece of
                None \<Rightarrow> piece_id piece
              | Some f \<Rightarrow> if f = [] then piece_id piece else f]))"

fun flatMap_existing :: "(GitRecord \<Rightarrow> bool) \<Rightarrow> (GitRecord \<Rightarrow> GitRecord list) \<Rightarrow> GitRecord list
    \<Rightarrow> GitRecord list" where
  \<comment> \<open>\<open>records.flatMap\<close> where \<open>record === existingRecord\<close> picks the object that
      \<open>find\<close> returned: the first element that satisfies the predicate (the array
      holds no object twice)\<close>
  "flatMap_existing P f [] = []"
| "flatMap_existing P f (r # rs) =
     (if P r then f r @ rs else r # flatMap_existing P f rs)"

definition handleContentPieceUpdated :: "GitSyncServices \<Rightarrow> GitDirectory list \<Rightarrow> GitRecord list
    \<Rightarrow> ContentPiece \<Rightarrow> error + HandlerResult" where
  "handleContentPieceUpdated svc dirs recs piece =
     (let isExisting = (\<lambda>r. contentPieceId r = piece_id piece \<and> currentHash r \<noteq> []);
          existingRecord = find isExisting recs;
          existingDirectory = find (\<lambda>d. contentGroupId d = piece_contentGroupId piece) dirs
      in
      case existingDirectory of
        None \<Rightarrow>
          (case existingRecord of
             Some r \<Rightarrow>
               Inr \<lparr>directories = dirs,
                    records =
                      map (\<lambda>r. if contentPieceId r = piece_id piece
                                then r\<lparr>currentHash := []\<rparr> else r) recs\<rparr>
           | None \<Rightarrow> Inr \<lparr>directories = dirs, records = recs\<rparr>)
      | Some dir \<Rightarrow>
      (case contents_findOne svc (piece_id piece) of
         Inl e \<Rightarrow> Inl e
       | Inr doc \<Rightarrow>
      (case (case doc of None \<Rightarrow> None | Some d \<Rightarrow> content d) of
         None \<Rightarrow> Inr \<lparr>directories = dirs, records = recs\<rparr>
       | Some buffer \<Rightarrow>
      (case process svc buffer piece of
         Inl e \<Rightarrow> Inl e
       | Inr output \<Rightarrow>
           let contentHash = md5_hex svc output;
               newPath = newRecordPath dir piece
           in
           (case existingRecord of
              Some existing \<Rightarrow>
                Inr \<lparr>directories = dirs,
                     records =
                       flatMap_existing isExisting
                         (\<lambda>r. if record_path r \<noteq> newPath
                               then [r\<lparr>currentHash := []\<rparr>,
                                     r\<lparr>record_path := newPath, currentHash := contentHash,
                                       syncedHash := []\<rparr>]
                               else [r\<lparr>currentHash := contentHash\<rparr>])
                         recs\<rparr>
            | None \<Rightarrow>
                Inr \<lparr>directories = dirs,
                     records =
                       recs @ [\<lparr>record_path = newPath, contentPieceId = piece_id piece,
                                currentHash = contentHash, syncedHash = []\<rparr>]\<rparr>)))))"

section \<open>An in-memory double of the collaborators\<close>

text \<open>
  Used to run the model on concrete scenarios. The durable store is a table from a user
  to the user's current workspace and role in it, and a table from a role to its
  permissions; the settings lookup throws for the users of the third list. A cookie
  header holds one \<open>name=value\<close> pair, unsigning is the identity, a token is the
  session identifier, a dot and the time of issue in unary, and no token expires.
\<close>

definition memory_services :: "(string \<times> string \<times> string) list \<Rightarrow> (string \<times> string list) list
    \<Rightarrow> string list \<Rightarrow> Services" where
  "memory_services members roles failing =
     \<lparr>parseCookie = (\<lambda>h.
        Inr (if h = [] then Map.empty
             else [takeWhile (\<lambda>c. c \<noteq> CHR ''='') h \<mapsto> drop 1 (dropWhile (\<lambda>c. c \<noteq> CHR ''='') h)])),
      unsignCookie = (\<lambda>c. Inr (Some c)),
      jwt_verify = (\<lambda>t token. Inr (takeWhile (\<lambda>c. c \<noteq> CHR ''.'') token)),
      jwtSign = (\<lambda>t sid expiresIn. Inr (sid @ ''.'' @ replicate t (CHR ''i''))),
      URL_protocol = (\<lambda>u. Inr (takeWhile (\<lambda>c. c \<noteq> CHR '':'') u @ '':'')),
      PUBLIC_API_URL = ''https://api.example.com'',
      COOKIE_DOMAIN = ''example.com'',
      new_ObjectId = Inr,
      userSettings_findOne = (\<lambda>u.
        if u \<in> set failing then Inl (Thrown ''unavailable'')
        else (case map_of members u of
                None \<Rightarrow> Inr None
              | Some (w, r) \<Rightarrow> Inr (Some \<lparr>currentWorkspaceId = w\<rparr>))),
      workspaceMemberships_findOne = (\<lambda>u w.
        case map_of members u of
          None \<Rightarrow> Inr None
        | Some (w', r) \<Rightarrow> if w = w' then Inr (Some \<lparr>membership_roleId = r\<rparr>) else Inr None),
      workspaces_findOne = (\<lambda>w.
        Inr (Some \<lparr>workspace_id = w, workspace_subscriptionStatus = None,
                   workspace_subscriptionPlan = None\<rparr>)),
      roles_findOne = (\<lambda>r.
        case map_of roles r of
          None \<Rightarrow> Inr None
        | Some ps \<Rightarrow> Inr (Some \<lparr>role_id = r, role_permissions = ps, role_baseType = None\<rparr>))\<rparr>"

definition empty_redis :: Redis where
  "empty_redis = \<lparr>strings = Map.empty, sets = (\<lambda>k. []), hashes = (\<lambda>k. Map.empty)\<rparr>"

definition request :: "Redis \<Rightarrow> string option \<Rightarrow> nat \<Rightarrow> Context" where
  \<comment> \<open>the context of a request without a socket, on the given store\<close>
  "request r header t =
     \<lparr>socket = None, cookieHeader = header, redis = r, resCookies = [], logged = [], now = t\<rparr>"

section \<open>Invariants and call sequences\<close>

text \<open>
  What the code maintains for a session whose record is in the store: the three forward
  hashes hold the fields of the record, and the session is in the three reverse sets the
  record names.
\<close>

definition attached :: "Redis \<Rightarrow> string \<Rightarrow> bool" where
  "attached r sid =
     (case redis_get r (session_key sid) of
        Some (Json d) \<Rightarrow>
          redis_hget r ''session:role'' sid = Some (roleId d)
          \<and> redis_hget r ''session:user'' sid = Some (userId d)
          \<and> redis_hget r ''session:workspace'' sid = Some (workspaceId d)
          \<and> sid \<in> set (redis_smembers r (role_sessions (roleId d)))
          \<and> sid \<in> set (redis_smembers r (user_sessions (userId d)))
          \<and> sid \<in> set (redis_smembers r (workspace_sessions (workspaceId d)))
      | _ \<Rightarrow> True)"

text \<open>
  Invariant I1 in the words of the specification: for a live session the forward hashes
  equal the fields of the record and the session is a member of exactly the three
  reverse sets the record names, and of no other set.
\<close>

definition I1 :: "Redis \<Rightarrow> string \<Rightarrow> bool" where
  "I1 r sid =
     (case redis_get r (session_key sid) of
        Some (Json d) \<Rightarrow>
          redis_hget r ''session:role'' sid = Some (roleId d)
          \<and> redis_hget r ''session:user'' sid = Some (userId d)
          \<and> redis_hget r ''session:workspace'' sid = Some (workspaceId d)
          \<and> (\<forall>k. sid \<in> set (redis_smembers r k) \<longleftrightarrow>
                 k \<in> {role_sessions (roleId d), user_sessions (userId d),
                       workspace_sessions (workspaceId d)})
      | _ \<Rightarrow> True)"

text \<open>
  A sequence of calls on one store: each call has the collaborators as they are at that
  time (the durable store changes between calls) and its own request, which is run on
  the store the previous call left.
\<close>

datatype operation =
    Create string string      \<comment> \<open>the account, and the identifier generated for the session\<close>
  | Update string string      \<comment> \<open>the session and the account\<close>
  | SwitchWorkspace string    \<comment> \<open>the authenticated account; the session is the request's\<close>
  | Delete string
  | Refresh string

fun perform :: "Services \<Rightarrow> Context \<Rightarrow> operation \<Rightarrow> error + Context" where
  "perform svc ctx (Create uid sid) = createSession svc ctx uid sid"
| "perform svc ctx (Update sid uid) = Inr (updateSession svc ctx sid uid)"
| "perform svc ctx (SwitchWorkspace uid) = switchWorkspaceSession svc ctx uid"
| "perform svc ctx (Delete sid) = deleteSession svc ctx sid"
| "perform svc ctx (Refresh sid) = refreshSession svc ctx sid"

fun run :: "Redis \<Rightarrow> (Services \<times> Context \<times> operation) list \<Rightarrow> error + Redis" where
  "run r [] = Inr r"
| "run r ((svc, req, op) # calls) =
     (case perform svc (req\<lparr>redis := r\<rparr>) op of
        Inl e \<Rightarrow> Inl e
      | Inr ctx \<Rightarrow> run (redis ctx) calls)"

text \<open>
  The lookups of the loader that decide the workspace of the record: the settings of the
  account, and the membership and the workspace they point to, were all found.
\<close>

definition resolved :: "Services \<Rightarrow> string \<Rightarrow> WorkspaceMembership \<Rightarrow> Workspace \<Rightarrow> bool" where
  "resolved svc uid m w =
     (\<exists>u us wid.
        new_ObjectId svc uid = Inr u
        \<and> userSettings_findOne svc u = Inr (Some us)
        \<and> new_ObjectId svc (currentWorkspaceId us) = Inr wid
        \<and> workspaceMemberships_findOne svc u wid = Inr (Some m)
        \<and> workspaces_findOne svc wid = Inr (Some w))"

definition degenerate :: "string \<Rightarrow> SessionData" where
  \<comment> \<open>the record of an account for which nothing was found\<close>
  "degenerate uid =
     \<lparr>workspaceId = [], userId = uid, roleId = [], permissions = [], baseType = None,
      subscriptionStatus = None, subscriptionPlan = None\<rparr>"


section \<open>Scenarios\<close>

text \<open>
  Concrete runs on the in-memory double. In \<open>store_v1\<close> the users u1, u2 and u3 are
  members of workspace w1 with role r1, which grants \<open>read\<close>. In \<open>store_v2\<close> user u1
  has selected workspace w2, where the role is r2. In \<open>store_v3\<close> role r1 grants
  \<open>read\<close> and \<open>write\<close>, and the settings lookup throws for u2.
\<close>

definition store_v1 :: Services where
  "store_v1 =
     memory_services
       [(''u1'', ''w1'', ''r1''), (''u2'', ''w1'', ''r1''), (''u3'', ''w1'', ''r1'')]
       [(''r1'', [''read'']), (''r2'', [''write''])] []"

definition store_v2 :: Services where
  "store_v2 =
     memory_services
       [(''u1'', ''w2'', ''r2''), (''u2'', ''w1'', ''r1''), (''u3'', ''w1'', ''r1'')]
       [(''r1'', [''read'']), (''r2'', [''write''])] []"

definition store_v3 :: Services where
  "store_v3 =
     memory_services
       [(''u1'', ''w1'', ''r1''), (''u2'', ''w1'', ''r1''), (''u3'', ''w1'', ''r1'')]
       [(''r1'', [''read'', ''write'']), (''r2'', [''write''])] [''u2'']"

text \<open>
  Session s1 is created for u1 and updated after u1 moved to workspace w2 and role r2;
  then it is deleted.
\<close>

definition created_then_updated :: "(Services \<times> Context \<times> operation) list" where
  "created_then_updated =
     [(store_v1, request empty_redis None 0, Create ''u1'' ''s1''),
      (store_v2, request empty_redis None 1, Update ''s1'' ''u1'')]"


text \<open>
  Session s1 is created at time 0 and refreshed at times 1 and 2, each time by a request
  that presents the refresh credential issued before.
\<close>

definition refreshed_twice :: "(Services \<times> Context \<times> operation) list" where
  "refreshed_twice =
     [(store_v1, request empty_redis None 0, Create ''u1'' ''s1''),
      (store_v1, request empty_redis (Some ''refreshToken=s1.'') 1, Refresh ''s1''),
      (store_v1, request empty_redis (Some ''refreshToken=s1.i'') 2, Refresh ''s1'')]"

definition orphan_refreshToken :: Redis where
  \<comment> \<open>a store with a refresh token of s1 and no record of s1\<close>
  "orphan_refreshToken = redis_set empty_redis (refreshToken_key ''s1'') (Plain ''s1.'') 5184000"

definition websocket_request :: Context where
  \<comment> \<open>a request on a socket that presents the access credential of s1; the store is empty\<close>
  "websocket_request =
     \<lparr>socket = Some \<lparr>sessionId = None, dataListeners = 0\<rparr>,
      cookieHeader = Some ''accessToken=s1.'', redis = empty_redis, resCookies = [],
      logged = [], now = 5\<rparr>"

definition switch_request :: "Redis \<Rightarrow> Context" where
  \<comment> \<open>a request without a socket that presents the access credential of s1\<close>
  "switch_request r = request r (Some ''accessToken=s1.'') 1"


text \<open>
  For the git-sync handler: one synced directory \<open>/docs\<close> of content group g1, one
  record of piece p1 at \<open>docs/old.md\<close>, and the piece renamed to \<open>new.md\<close>. The
  stored content is \<open>hello\<close>, the processor returns its input, and the digest is a
  stand-in that keeps its input readable.
\<close>

definition memory_git_services :: GitSyncServices where
  "memory_git_services =
     \<lparr>contents_findOne = (\<lambda>pid. Inr (Some \<lparr>content = Some ''hello''\<rparr>)),
      process = (\<lambda>buffer piece. Inr buffer),
      md5_hex = (\<lambda>output. ''md5 of '' @ output)\<rparr>"

definition docs_directories :: "GitDirectory list" where
  "docs_directories = [\<lparr>directory_path = ''/docs'', contentGroupId = ''g1''\<rparr>]"

definition docs_records :: "GitRecord list" where
  "docs_records =
     [\<lparr>record_path = ''docs/old.md'', contentPieceId = ''p1'', currentHash = ''h0'',
       syncedHash = ''h0''\<rparr>]"

definition renamed_piece :: ContentPiece where
  "renamed_piece = \<lparr>piece_id = ''p1'', piece_contentGroupId = ''g1'', filename = Some ''new.md''\<rparr>"

text \<open>
  The request presents a credential of the given kind for the session: its cookie header
  parses, the cookie of that name is there and unsigns to a token, and the token verifies
  (signature and expiry) with that session identifier as payload.
\<close>

definition presented :: "Services \<Rightarrow> Context \<Rightarrow> TokenType \<Rightarrow> string \<Rightarrow> bool" where
  "presented svc ctx tokenType sid =
     (\<exists>cookies c token.
        parseCookie svc (case cookieHeader ctx of None \<Rightarrow> [] | Some h \<Rightarrow> h) = Inr cookies
        \<and> cookies (tokenName tokenType) = Some c \<and> c \<noteq> []
        \<and> unsignCookie svc c = Inr (Some token) \<and> token \<noteq> []
        \<and> jwt_verify svc (now ctx) token = Inr sid)"

definition store_no_membership :: Services where
  \<comment> \<open>\<open>store_v1\<close> with an empty memberships collection\<close>
  "store_no_membership = store_v1\<lparr>workspaceMemberships_findOne := (\<lambda>u w. Inr None)\<rparr>"

text \<open>
  The index of one session, exactly: a session with a record is indexed as invariant I1
  says, and a session without one is a member of no reverse set.
\<close>

definition indexed_exactly :: "Redis \<Rightarrow> string \<Rightarrow> bool" where
  "indexed_exactly r sid =
     (case redis_get r (session_key sid) of
        Some (Json d) \<Rightarrow>
          redis_hget r ''session:role'' sid = Some (roleId d)
          \<and> redis_hget r ''session:user'' sid = Some (userId d)
          \<and> redis_hget r ''session:workspace'' sid = Some (workspaceId d)
          \<and> (\<forall>k. sid \<in> set (redis_smembers r k) \<longleftrightarrow>
                 k \<in> {role_sessions (roleId d), user_sessions (userId d),
                       workspace_sessions (workspaceId d)})
      | _ \<Rightarrow> (\<forall>k. sid \<notin> set (redis_smembers r k)))"

text \<open>
  A sequence of calls that never updates session s, and that creates s only when no
  record is stored under its identifier (the identifier is fresh). The store each call
  sees is the one the calls before it left.
\<close>

definition admissible :: "string \<Rightarrow> Redis \<Rightarrow> operation \<Rightarrow> bool" where
  "admissible s r op =
     (case op of
        Create uid sid \<Rightarrow> sid = s \<longrightarrow> redis_get r (session_key s) = None
      | Update sid uid \<Rightarrow> sid \<noteq> s
      | _ \<Rightarrow> True)"

fun without_update :: "string \<Rightarrow> Redis \<Rightarrow> (Services \<times> Context \<times> operation) list \<Rightarrow> bool" where
  "without_update s r [] = True"
| "without_update s r ((svc, req, op) # calls) =
     (admissible s r op
      \<and> (case perform svc (req\<lparr>redis := r\<rparr>) op of
            Inl e \<Rightarrow> True
          | Inr ctx \<Rightarrow> without_update s (redis ctx) calls))"

text \<open>
  Session s1 is created for u1 and, after u1 moved to workspace w2 and role r2, switched
  by a request that presents its access credential.
\<close>

definition created_then_switched :: "(Services \<times> Context \<times> operation) list" where
  "created_then_switched =
     [(store_v1, request empty_redis None 0, Create ''u1'' ''s1''),
      (store_v2, switch_request empty_redis, SwitchWorkspace ''u1'')]"

section \<open>Properties of the store operations\<close>

lemma key_inject [simp]:
  "session_key a = session_key b \<longleftrightarrow> a = b"
  "refreshToken_key a = refreshToken_key b \<longleftrightarrow> a = b"
  "role_sessions a = role_sessions b \<longleftrightarrow> a = b"
  "user_sessions a = user_sessions b \<longleftrightarrow> a = b"
  "workspace_sessions a = workspace_sessions b \<longleftrightarrow> a = b"
  by (simp_all add: session_key_def refreshToken_key_def role_sessions_def user_sessions_def
      workspace_sessions_def)

lemma key_distinct [simp]:
  "session_key a \<noteq> refreshToken_key b"
  "refreshToken_key b \<noteq> session_key a"
  "role_sessions a \<noteq> user_sessions b"
  "role_sessions a \<noteq> workspace_sessions b"
  "user_sessions a \<noteq> role_sessions b"
  "user_sessions a \<noteq> workspace_sessions b"
  "workspace_sessions a \<noteq> role_sessions b"
  "workspace_sessions a \<noteq> user_sessions b"
  by (simp_all add: session_key_def refreshToken_key_def role_sessions_def user_sessions_def
      workspace_sessions_def)

text \<open>What each observer sees after each mutator.\<close>

lemma get_after [simp]:
  "redis_get (redis_set r k v t) k' = (if k' = k then Some v else redis_get r k')"
  "redis_get (redis_del r k) k' = (if k' = k then None else redis_get r k')"
  "redis_get (redis_expire r k t) k' = redis_get r k'"
  "redis_get (redis_sadd r k m) k' = redis_get r k'"
  "redis_get (redis_srem r k m) k' = redis_get r k'"
  "redis_get (redis_hset r k f x) k' = redis_get r k'"
  "redis_get (redis_hdel r k f) k' = redis_get r k'"
  by (auto simp add: redis_get_def redis_set_def redis_del_def redis_expire_def redis_sadd_def
      redis_srem_def redis_hset_def redis_hdel_def split: option.splits)

lemma exists_after [simp]:
  "redis_exists (redis_set r k v t) k' = (k' = k \<or> redis_exists r k')"
  "redis_exists (redis_del r k) k' = (k' \<noteq> k \<and> redis_exists r k')"
  "redis_exists (redis_expire r k t) k' = redis_exists r k'"
  "redis_exists (redis_sadd r k m) k' = redis_exists r k'"
  "redis_exists (redis_srem r k m) k' = redis_exists r k'"
  "redis_exists (redis_hset r k f x) k' = redis_exists r k'"
  "redis_exists (redis_hdel r k f) k' = redis_exists r k'"
  by (auto simp add: redis_exists_def redis_set_def redis_del_def redis_expire_def redis_sadd_def
      redis_srem_def redis_hset_def redis_hdel_def split: option.splits)

lemma hget_after [simp]:
  "redis_hget (redis_hset r k f x) k' f' = (if k' = k \<and> f' = f then Some x else redis_hget r k' f')"
  "redis_hget (redis_hdel r k f) k' f' = (if k' = k \<and> f' = f then None else redis_hget r k' f')"
  "redis_hget (redis_set r k v t) k' f' = redis_hget r k' f'"
  "redis_hget (redis_del r k) k' f' = redis_hget r k' f'"
  "redis_hget (redis_expire r k t) k' f' = redis_hget r k' f'"
  "redis_hget (redis_sadd r k m) k' f' = redis_hget r k' f'"
  "redis_hget (redis_srem r k m) k' f' = redis_hget r k' f'"
  by (simp_all add: redis_hget_def redis_set_def redis_del_def redis_expire_def redis_sadd_def
      redis_srem_def redis_hset_def redis_hdel_def split: option.splits)

lemma smembers_after [simp]:
  "redis_smembers (redis_set r k v t) k' = redis_smembers r k'"
  "redis_smembers (redis_del r k) k' = redis_smembers r k'"
  "redis_smembers (redis_expire r k t) k' = redis_smembers r k'"
  "redis_smembers (redis_hset r k f x) k' = redis_smembers r k'"
  "redis_smembers (redis_hdel r k f) k' = redis_smembers r k'"
  by (simp_all add: redis_smembers_def redis_set_def redis_del_def redis_expire_def
      redis_hset_def redis_hdel_def split: option.splits)

lemma member_after [simp]:
  "x \<in> set (redis_smembers (redis_sadd r k m) k') \<longleftrightarrow>
     x \<in> set (redis_smembers r k') \<or> (k' = k \<and> x = m)"
  "x \<in> set (redis_smembers (redis_srem r k m) k') \<longleftrightarrow>
     x \<in> set (redis_smembers r k') \<and> \<not> (k' = k \<and> x = m)"
  by (auto simp add: redis_smembers_def redis_sadd_def redis_srem_def)

text \<open>The composite writes.\<close>

lemma get_setSession [simp]:
  "redis_get (setSession_redis r sid d) k = (if k = session_key sid then Some (Json d) else redis_get r k)"
  by (simp add: setSession_redis_def Let_def)

lemma exists_setSession [simp]:
  "redis_exists (setSession_redis r sid d) k = (k = session_key sid \<or> redis_exists r k)"
  by (simp add: setSession_redis_def Let_def)

lemma member_setSession:
  "x \<in> set (redis_smembers (setSession_redis r sid d) k) \<longleftrightarrow>
     x \<in> set (redis_smembers r k)
     \<or> (x = sid \<and> (k = role_sessions (roleId d) \<or> k = user_sessions (userId d)
                       \<or> k = workspace_sessions (workspaceId d)))"
  unfolding setSession_redis_def Let_def
  by (simp only: smembers_after member_after) blast

lemma hget_setSession_same:
  "redis_hget (setSession_redis r sid d) ''session:role'' sid = Some (roleId d)"
  "redis_hget (setSession_redis r sid d) ''session:user'' sid = Some (userId d)"
  "redis_hget (setSession_redis r sid d) ''session:workspace'' sid = Some (workspaceId d)"
  by (simp_all add: setSession_redis_def Let_def)

lemma hget_setSession_other:
  "f \<noteq> sid \<Longrightarrow> redis_hget (setSession_redis r sid d) k f = redis_hget r k f"
  by (simp add: setSession_redis_def Let_def)

lemma attached_setSession_same: "attached (setSession_redis r sid d) sid"
  by (simp add: attached_def hget_setSession_same member_setSession)

lemma attached_setSession:
  assumes "attached r s"
  shows "attached (setSession_redis r sid d) s"
proof (cases "s = sid")
  case True
  then show ?thesis by (simp add: attached_setSession_same)
next
  case False
  with assms show ?thesis
    by (simp add: attached_def hget_setSession_other member_setSession
        split: option.splits redis_string.splits)
qed

lemma redis_loadSessionData [simp]: "redis (snd (loadSessionData svc ctx uid)) = redis ctx"
  by (simp add: loadSessionData_def Let_def split: option.splits)

lemma fst_loadSessionData: "fst (loadSessionData svc ctx uid) = sessionData_from (load_lookups svc uid) uid"
  by (simp add: loadSessionData_def Let_def)

lemma redis_createTokens:
  "createTokens svc ctx sid = Inr ctx' \<Longrightarrow>
     \<exists>token. jwtSign svc (now ctx) sid 5184000 = Inr token
       \<and> redis ctx' = redis_set (redis ctx) (refreshToken_key sid) (Plain token) 5184000"
  by (auto simp add: createTokens_def split: sum.splits)

lemma attached_set_refreshToken [simp]:
  "attached (redis_set r (refreshToken_key sid) v t) s = attached r s"
  by (simp add: attached_def split: option.splits redis_string.splits)

lemma attached_del_refreshToken [simp]:
  "attached (redis_del r (refreshToken_key sid)) s = attached r s"
  by (simp add: attached_def split: option.splits redis_string.splits)

lemma attached_expire [simp]:
  "attached (redis_expire r k t) s = attached r s"
  by (simp add: attached_def split: option.splits redis_string.splits)

lemma redis_updateSession:
  "redis (updateSession svc ctx sid uid) =
     (if truthy (redis_get (redis ctx) (session_key sid))
      then setSession_redis (redis ctx) sid (sessionData_from (load_lookups svc uid) uid)
      else redis ctx)"
  by (simp add: updateSession_def setSession_def loadSessionData_def Let_def split: option.splits)

lemma attached_updateSession:
  "attached (redis ctx) s \<Longrightarrow> attached (redis (updateSession svc ctx sid uid)) s"
  by (simp add: redis_updateSession attached_setSession)

lemma attached_createSession:
  assumes "attached (redis ctx) s" and "createSession svc ctx uid sid = Inr ctx'"
  shows "attached (redis ctx') s"
proof -
  obtain d ctx1 where l: "loadSessionData svc ctx uid = (d, ctx1)"
    by (cases "loadSessionData svc ctx uid")
  then have "redis ctx1 = redis ctx"
    using redis_loadSessionData [of svc ctx uid] by simp
  with assms(1) have "attached (redis (setSession ctx1 sid d)) s"
    by (simp add: setSession_def attached_setSession)
  moreover from assms(2) l have "createTokens svc (setSession ctx1 sid d) sid = Inr ctx'"
    by (simp add: createSession_def)
  ultimately show ?thesis
    by (auto dest: redis_createTokens)
qed

lemma attached_refreshSession:
  assumes "attached (redis ctx) s" and "refreshSession svc ctx sid = Inr ctx'"
  shows "attached (redis ctx') s"
  using assms
  by (auto simp add: refreshSession_def Let_def split: if_splits dest!: redis_createTokens)

lemma get_srem_indexed [simp]: "redis_get (srem_indexed r sid d) k = redis_get r k"
  by (simp add: srem_indexed_def Let_def)

lemma get_hdel_forward [simp]: "redis_get (hdel_forward r sid) k = redis_get r k"
  by (simp add: hdel_forward_def Let_def)

lemma exists_srem_indexed [simp]: "redis_exists (srem_indexed r sid d) k = redis_exists r k"
  by (simp add: srem_indexed_def Let_def)

lemma exists_hdel_forward [simp]: "redis_exists (hdel_forward r sid) k = redis_exists r k"
  by (simp add: hdel_forward_def Let_def)

lemma hget_srem_indexed [simp]: "redis_hget (srem_indexed r sid d) k f = redis_hget r k f"
  by (simp add: srem_indexed_def Let_def)

lemma smembers_hdel_forward [simp]: "redis_smembers (hdel_forward r sid) k = redis_smembers r k"
  by (simp add: hdel_forward_def Let_def)

lemma member_srem_indexed:
  "x \<in> set (redis_smembers (srem_indexed r sid d) k) \<longleftrightarrow>
     x \<in> set (redis_smembers r k)
     \<and> \<not> (x = sid \<and> (k = role_sessions (roleId d) \<or> k = user_sessions (userId d)
                          \<or> k = workspace_sessions (workspaceId d)))"
  unfolding srem_indexed_def Let_def
  by (simp only: member_after) blast


lemma hget_hdel_forward_other:
  "f \<noteq> sid \<Longrightarrow> redis_hget (hdel_forward r sid) k f = redis_hget r k f"
  by (simp add: hdel_forward_def Let_def)

lemma attached_not_truthy: "\<not> truthy (redis_get r (session_key s)) \<Longrightarrow> attached r s"
  by (simp add: attached_def truthy_def split: option.splits redis_string.splits)

lemma attached_other_session:
  assumes "s \<noteq> sid"
  shows "attached (hdel_forward r sid) s = attached r s"
    and "attached (srem_indexed r sid d) s = attached r s"
    and "attached (redis_del r (session_key sid)) s = attached r s"
  using assms
  by (simp_all add: attached_def hget_hdel_forward_other member_srem_indexed
      split: option.splits redis_string.splits)

lemma redis_remember_on_socket [simp]: "redis (remember_on_socket ctx sid) = redis ctx"
  by (simp add: remember_on_socket_def split: option.split)

lemma redis_getSessionId_try:
  "(case getSessionId_try svc ctx t of Inl e \<Rightarrow> True | Inr res \<Rightarrow> redis (snd res) = redis ctx)"
  by (simp add: getSessionId_try_def Let_def split: sum.split option.split)

lemma redis_getSessionId [simp]: "redis (snd (getSessionId svc ctx t)) = redis ctx"
  using redis_getSessionId_try [where svc = svc and ctx = ctx and t = t]
  by (cases "getSessionId_try svc ctx t") (auto simp add: getSessionId_def split: option.split)

lemma get_switchWorkspace_detach:
  "switchWorkspace_detach ctx sid = Inr ctx' \<Longrightarrow>
     redis_get (redis ctx') k = redis_get (redis ctx) k"
  by (auto simp add: switchWorkspace_detach_def split: option.splits sum.splits if_splits)

lemma attached_switchWorkspace_detach:
  "switchWorkspace_detach ctx sid = Inr ctx' \<Longrightarrow> s \<noteq> sid \<Longrightarrow>
     attached (redis ctx') s = attached (redis ctx) s"
  by (auto simp add: switchWorkspace_detach_def attached_other_session
      split: option.splits sum.splits if_splits)

lemma attached_after_detach_update:
  assumes d: "switchWorkspace_detach ctx sid = Inr ctx2" and a: "attached (redis ctx) s"
  shows "attached (redis (updateSession svc ctx2 sid uid)) s"
proof (cases "s = sid")
  case False
  with d a have "attached (redis ctx2) s"
    by (simp add: attached_switchWorkspace_detach)
  then show ?thesis by (rule attached_updateSession)
next
  case True
  show ?thesis
  proof (cases "truthy (redis_get (redis ctx2) (session_key sid))")
    case live: True
    then show ?thesis
      using True by (simp add: redis_updateSession attached_setSession_same)
  next
    case gone: False
    then show ?thesis
      using True by (simp add: redis_updateSession attached_not_truthy)
  qed
qed

lemma attached_switchWorkspaceSession:
  assumes "attached (redis ctx) s" and "switchWorkspaceSession svc ctx uid = Inr ctx'"
  shows "attached (redis ctx') s"
proof -
  obtain res ctx1 where g: "getSessionId svc ctx accessToken = (res, ctx1)"
    by (cases "getSessionId svc ctx accessToken")
  then have r1: "redis ctx1 = redis ctx"
    using redis_getSessionId [of svc ctx accessToken] by simp
  show ?thesis
  proof (cases "\<exists>sid. res = Some sid \<and> sid \<noteq> []")
    case False
    with assms(2) g have "ctx' = ctx1"
      by (auto simp add: switchWorkspaceSession_def split: option.splits if_splits)
    with r1 assms(1) show ?thesis by simp
  next
    case True
    then obtain sid where sid: "res = Some sid" "sid \<noteq> []" by blast
    with assms(2) g obtain ctx2 where
      d: "switchWorkspace_detach ctx1 sid = Inr ctx2" and
      u: "ctx' = updateSession svc ctx2 sid uid"
      by (auto simp add: switchWorkspaceSession_def split: sum.splits)
    from assms(1) r1 have "attached (redis ctx1) s" by simp
    with d u show ?thesis by (simp add: attached_after_detach_update)
  qed
qed

lemma redis_deleteSession_finish:
  "redis (deleteSession_finish svc ctx sid) =
     redis_del (hdel_forward (redis ctx) sid) (refreshToken_key sid)"
  by (simp add: deleteSession_finish_def)

lemma deleteSession_not_truthy:
  "deleteSession svc ctx sid = Inr ctx' \<Longrightarrow> \<not> truthy (redis_get (redis ctx') (session_key sid))"
  by (auto simp add: deleteSession_def redis_deleteSession_finish truthy_def
      split: option.splits sum.splits if_splits)

lemma attached_deleteSession:
  assumes "attached (redis ctx) s" and "deleteSession svc ctx sid = Inr ctx'"
  shows "attached (redis ctx') s"
proof (cases "s = sid")
  case True
  with assms(2) show ?thesis
    by (simp add: deleteSession_not_truthy attached_not_truthy)
next
  case False
  with assms show ?thesis
    by (auto simp add: deleteSession_def redis_deleteSession_finish attached_other_session
        split: option.splits sum.splits if_splits)
qed

lemma attached_perform:
  "attached (redis ctx) s \<Longrightarrow> perform svc ctx op = Inr ctx' \<Longrightarrow> attached (redis ctx') s"
  by (cases op)
    (auto intro: attached_createSession attached_updateSession attached_switchWorkspaceSession
      attached_deleteSession attached_refreshSession)

lemma attached_run:
  "attached r s \<Longrightarrow> run r calls = Inr r' \<Longrightarrow> attached r' s"
proof (induction calls arbitrary: r)
  case Nil
  then show ?case by simp
next
  case (Cons c calls)
  obtain svc req op where c: "c = (svc, req, op)" by (cases c)
  with Cons.prems(2) obtain ctx where
    p: "perform svc (req\<lparr>redis := r\<rparr>) op = Inr ctx" and rest: "run (redis ctx) calls = Inr r'"
    by (auto split: sum.splits)
  from Cons.prems(1) have "attached (redis (req\<lparr>redis := r\<rparr>)) s" by simp
  from this p have "attached (redis ctx) s" by (rule attached_perform)
  from this rest show ?case by (rule Cons.IH)
qed

lemma empty_redis_observed [simp]:
  "redis_get empty_redis k = None"
  "redis_exists empty_redis k = False"
  "redis_hget empty_redis k f = None"
  "redis_smembers empty_redis k = []"
  by (simp_all add: empty_redis_def redis_get_def redis_exists_def redis_hget_def
      redis_smembers_def)

lemmas scenario_simps =
  createSession_def updateSession_def setSession_def createTokens_def refreshSession_def
  loadSessionData_def load_lookups_def lookups_def sessionData_from_def cookieOptions_def
  memory_services_def request_def store_v1_def store_v2_def truthy_def
  hget_setSession_same member_setSession

section \<open>Index consistency (C1)\<close>

lemma indexed_exactly_I1: "indexed_exactly r s \<Longrightarrow> I1 r s"
  by (simp add: indexed_exactly_def I1_def split: option.splits redis_string.splits)

lemma indexed_exactly_cong:
  assumes "redis_get r' (session_key s) = redis_get r (session_key s)"
    and "\<And>k. redis_hget r' k s = redis_hget r k s"
    and "\<And>k. s \<in> set (redis_smembers r' k) \<longleftrightarrow> s \<in> set (redis_smembers r k)"
  shows "indexed_exactly r' s = indexed_exactly r s"
  by (simp add: indexed_exactly_def assms split: option.split redis_string.split)

lemma indexed_exactly_setSession_other:
  "s \<noteq> sid \<Longrightarrow> indexed_exactly (setSession_redis r sid d) s = indexed_exactly r s"
  by (rule indexed_exactly_cong) (simp_all add: hget_setSession_other member_setSession)

lemma indexed_exactly_setSession_same:
  assumes "\<forall>k. s \<notin> set (redis_smembers r k)"
  shows "indexed_exactly (setSession_redis r s d) s"
  using assms by (simp add: indexed_exactly_def hget_setSession_same member_setSession)

lemma indexed_exactly_refreshToken [simp]:
  "indexed_exactly (redis_set r (refreshToken_key sid) v t) s = indexed_exactly r s"
  "indexed_exactly (redis_del r (refreshToken_key sid)) s = indexed_exactly r s"
  "indexed_exactly (redis_expire r k t) s = indexed_exactly r s"
  by (rule indexed_exactly_cong; simp)+

lemma indexed_exactly_other_session:
  assumes "s \<noteq> sid"
  shows "indexed_exactly (hdel_forward r sid) s = indexed_exactly r s"
    and "indexed_exactly (srem_indexed r sid d) s = indexed_exactly r s"
    and "indexed_exactly (redis_del r (session_key sid)) s = indexed_exactly r s"
  by (rule indexed_exactly_cong; use assms in \<open>simp add: hget_hdel_forward_other member_srem_indexed\<close>)+

lemma indexed_exactly_updateSession_other:
  "s \<noteq> sid \<Longrightarrow> indexed_exactly (redis (updateSession svc ctx sid uid)) s = indexed_exactly (redis ctx) s"
  by (simp add: redis_updateSession indexed_exactly_setSession_other)

lemma indexed_exactly_absent:
  "indexed_exactly r s \<Longrightarrow> redis_get r (session_key s) = None \<Longrightarrow> s \<notin> set (redis_smembers r k)"
  by (simp add: indexed_exactly_def)

lemma indexed_exactly_createSession:
  assumes i: "indexed_exactly (redis ctx) s" and c: "createSession svc ctx uid sid = Inr ctx'"
    and f: "sid = s \<longrightarrow> redis_get (redis ctx) (session_key s) = None"
  shows "indexed_exactly (redis ctx') s"
proof -
  obtain d ctx1 where l: "loadSessionData svc ctx uid = (d, ctx1)"
    by (cases "loadSessionData svc ctx uid")
  then have r1: "redis ctx1 = redis ctx"
    using redis_loadSessionData [of svc ctx uid] by simp
  have "indexed_exactly (setSession_redis (redis ctx) sid d) s"
  proof (cases "s = sid")
    case True
    with i f have "\<forall>k. s \<notin> set (redis_smembers (redis ctx) k)"
      by (simp add: indexed_exactly_absent)
    with True show ?thesis by (simp add: indexed_exactly_setSession_same)
  next
    case False
    with i show ?thesis by (simp add: indexed_exactly_setSession_other)
  qed
  with r1 have "indexed_exactly (redis (setSession ctx1 sid d)) s"
    by (simp add: setSession_def)
  moreover from c l have "createTokens svc (setSession ctx1 sid d) sid = Inr ctx'"
    by (simp add: createSession_def)
  ultimately show ?thesis
    by (auto dest: redis_createTokens)
qed

lemma indexed_exactly_refreshSession:
  assumes "indexed_exactly (redis ctx) s" and "refreshSession svc ctx sid = Inr ctx'"
  shows "indexed_exactly (redis ctx') s"
  using assms
  by (auto simp add: refreshSession_def Let_def split: if_splits dest!: redis_createTokens)

lemma indexed_exactly_deleteSession:
  assumes i: "indexed_exactly (redis ctx) s" and d: "deleteSession svc ctx sid = Inr ctx'"
  shows "indexed_exactly (redis ctx') s"
proof (cases "s = sid")
  case False
  with assms show ?thesis
    by (auto simp add: deleteSession_def redis_deleteSession_finish indexed_exactly_other_session
        split: option.splits sum.splits if_splits)
next
  case True
  show ?thesis
  proof (cases "redis_get (redis ctx) (session_key sid)")
    case None
    with d have "redis ctx' = redis_del (hdel_forward (redis ctx) sid) (refreshToken_key sid)"
      by (auto simp add: deleteSession_def redis_deleteSession_finish)
    with i None True show ?thesis
      by (simp add: indexed_exactly_def)
  next
    case (Some v)
    show ?thesis
    proof (cases v)
      case (Json old)
      with d Some have "redis ctx' =
          redis_del (hdel_forward (srem_indexed (redis_del (redis ctx) (session_key sid)) sid old) sid)
            (refreshToken_key sid)"
        by (auto simp add: deleteSession_def redis_deleteSession_finish truthy_def JSON_parse_def)
      with i Some Json True show ?thesis
        by (auto simp add: indexed_exactly_def member_srem_indexed)
    next
      case (Plain p)
      with d Some have "redis ctx' = redis_del (hdel_forward (redis ctx) sid) (refreshToken_key sid)"
        by (auto simp add: deleteSession_def redis_deleteSession_finish truthy_def JSON_parse_def
            split: if_splits)
      with i Some Plain True show ?thesis
        by (simp add: indexed_exactly_def)
    qed
  qed
qed

lemma indexed_exactly_after_detach_update:
  assumes d: "switchWorkspace_detach ctx sid = Inr ctx2" and i: "indexed_exactly (redis ctx) s"
  shows "indexed_exactly (redis (updateSession svc ctx2 sid uid)) s"
proof (cases "s = sid")
  case False
  with d i have "indexed_exactly (redis ctx2) s"
    by (auto simp add: switchWorkspace_detach_def indexed_exactly_other_session
        split: option.splits sum.splits if_splits)
  with False show ?thesis by (simp add: indexed_exactly_updateSession_other)
next
  case True
  show ?thesis
  proof (cases "redis_get (redis ctx) (session_key sid)")
    case None
    with d have "redis ctx2 = hdel_forward (redis ctx) sid"
      by (auto simp add: switchWorkspace_detach_def)
    with i None True show ?thesis
      by (simp add: redis_updateSession truthy_def indexed_exactly_def)
  next
    case (Some v)
    show ?thesis
    proof (cases v)
      case (Json old)
      with d Some have r2: "redis ctx2 = hdel_forward (srem_indexed (redis ctx) sid old) sid"
        by (auto simp add: switchWorkspace_detach_def truthy_def JSON_parse_def)
      from i Some Json True have "\<forall>k. s \<notin> set (redis_smembers (redis ctx2) k)"
        by (auto simp add: r2 indexed_exactly_def member_srem_indexed)
      with Some Json True r2 show ?thesis
        by (simp add: redis_updateSession truthy_def indexed_exactly_setSession_same)
    next
      case (Plain p)
      with d Some have "redis ctx2 = hdel_forward (redis ctx) sid" and "p = []"
        by (auto simp add: switchWorkspace_detach_def truthy_def JSON_parse_def split: if_splits)
      with i Some Plain True show ?thesis
        by (simp add: redis_updateSession truthy_def indexed_exactly_def)
    qed
  qed
qed

lemma indexed_exactly_switchWorkspaceSession:
  assumes "indexed_exactly (redis ctx) s" and "switchWorkspaceSession svc ctx uid = Inr ctx'"
  shows "indexed_exactly (redis ctx') s"
proof -
  obtain res ctx1 where g: "getSessionId svc ctx accessToken = (res, ctx1)"
    by (cases "getSessionId svc ctx accessToken")
  then have r1: "redis ctx1 = redis ctx"
    using redis_getSessionId [of svc ctx accessToken] by simp
  show ?thesis
  proof (cases "\<exists>sid. res = Some sid \<and> sid \<noteq> []")
    case False
    with assms(2) g have "ctx' = ctx1"
      by (auto simp add: switchWorkspaceSession_def split: option.splits if_splits)
    with r1 assms(1) show ?thesis by simp
  next
    case True
    then obtain sid where sid: "res = Some sid" "sid \<noteq> []" by blast
    with assms(2) g obtain ctx2 where
      d: "switchWorkspace_detach ctx1 sid = Inr ctx2" and
      u: "ctx' = updateSession svc ctx2 sid uid"
      by (auto simp add: switchWorkspaceSession_def split: sum.splits)
    from assms(1) r1 have "indexed_exactly (redis ctx1) s" by simp
    with d u show ?thesis by (simp add: indexed_exactly_after_detach_update)
  qed
qed

lemma indexed_exactly_perform:
  assumes "indexed_exactly (redis ctx) s" and "admissible s (redis ctx) op"
    and "perform svc ctx op = Inr ctx'"
  shows "indexed_exactly (redis ctx') s"
proof (cases op)
  case (Create uid sid)
  with assms show ?thesis
    by (auto simp add: admissible_def intro: indexed_exactly_createSession)
next
  case (Update sid uid)
  with assms show ?thesis
    by (auto simp add: admissible_def indexed_exactly_updateSession_other)
next
  case (SwitchWorkspace uid)
  with assms show ?thesis
    by (auto intro: indexed_exactly_switchWorkspaceSession)
next
  case (Delete sid)
  with assms show ?thesis
    by (auto intro: indexed_exactly_deleteSession)
next
  case (Refresh sid)
  with assms show ?thesis
    by (auto intro: indexed_exactly_refreshSession)
qed

lemma indexed_exactly_run:
  "indexed_exactly r s \<Longrightarrow> without_update s r calls \<Longrightarrow> run r calls = Inr r' \<Longrightarrow>
     indexed_exactly r' s"
proof (induction calls arbitrary: r)
  case Nil
  then show ?case by simp
next
  case (Cons c calls)
  obtain svc req op where c: "c = (svc, req, op)" by (cases c)
  with Cons.prems(3) obtain ctx where
    p: "perform svc (req\<lparr>redis := r\<rparr>) op = Inr ctx" and rest: "run (redis ctx) calls = Inr r'"
    by (auto split: sum.splits)
  from Cons.prems(2) c p have a: "admissible s (redis (req\<lparr>redis := r\<rparr>)) op"
    and w: "without_update s (redis ctx) calls"
    by simp_all
  from Cons.prems(1) have "indexed_exactly (redis (req\<lparr>redis := r\<rparr>)) s" by simp
  from this a p have "indexed_exactly (redis ctx) s" by (rule indexed_exactly_perform)
  from this w rest show ?case by (rule Cons.IH)
qed

lemma member_updateSession:
  "x \<in> set (redis_smembers (redis (updateSession svc ctx sid uid)) k) \<longleftrightarrow>
     x \<in> set (redis_smembers (redis ctx) k)
     \<or> (x = sid \<and> truthy (redis_get (redis ctx) (session_key sid))
        \<and> k \<in> {role_sessions (roleId (fst (loadSessionData svc ctx uid))),
                user_sessions (userId (fst (loadSessionData svc ctx uid))),
                workspace_sessions (workspaceId (fst (loadSessionData svc ctx uid)))})"
  by (simp add: redis_updateSession member_setSession fst_loadSessionData)

text \<open>
  C1 (amended). Take any sequence of create, update, switchWorkspace, delete and refresh
  calls that completes. A session whose record is in the store has, after it, the three
  forward hashes equal to the fields of its record and is a member of the three reverse
  sets the record names. If moreover the sequence never updates the session and creates
  it only under a fresh identifier, then invariant I1 holds after it: the session is a
  member of exactly those three sets, and of no set at all once its record is gone.
  update itself only attaches: after it the session is in exactly the sets it was in
  before and, when its record is live, the three sets the reloaded record names; it
  detaches nothing.
\<close>

theorem index_exact_unless_updated:
  assumes "run r calls = Inr r'"
  shows "(attached r s \<longrightarrow> attached r' s)
    \<and> (indexed_exactly r s \<and> without_update s r calls \<longrightarrow> indexed_exactly r' s \<and> I1 r' s)
    \<and> (\<forall>svc ctx sid uid k x.
          x \<in> set (redis_smembers (redis (updateSession svc ctx sid uid)) k) \<longleftrightarrow>
            x \<in> set (redis_smembers (redis ctx) k)
            \<or> (x = sid \<and> truthy (redis_get (redis ctx) (session_key sid))
               \<and> k \<in> {role_sessions (roleId (fst (loadSessionData svc ctx uid))),
                       user_sessions (userId (fst (loadSessionData svc ctx uid))),
                       workspace_sessions (workspaceId (fst (loadSessionData svc ctx uid)))}))"
proof (intro conjI impI allI)
  assume "attached r s"
  from this assms show "attached r' s" by (rule attached_run)
next
  assume "indexed_exactly r s \<and> without_update s r calls"
  with assms show "indexed_exactly r' s" by (blast intro: indexed_exactly_run)
  then show "I1 r' s" by (rule indexed_exactly_I1)
qed (rule member_updateSession)

lemma run_created_then_switched:
  "case run empty_redis created_then_switched of
     Inl e \<Rightarrow> False
   | Inr r \<Rightarrow>
       redis_get r (session_key ''s1'') =
           Some (Json \<lparr>workspaceId = ''w2'', userId = ''u1'', roleId = ''r2'',
                        permissions = [''write''], baseType = None,
                        subscriptionStatus = None, subscriptionPlan = None\<rparr>)"
  by (simp add: created_then_switched_def scenario_simps switch_request_def
      switchWorkspaceSession_def switchWorkspace_detach_def JSON_parse_def
      getSessionId_def getSessionId_try_def socket_sessionId_def tokenName_def
      remember_on_socket_def Let_def)

lemma without_update_created_then_switched:
  "without_update ''s1'' empty_redis created_then_switched"
  by (simp add: created_then_switched_def admissible_def scenario_simps split: sum.split)

text \<open>
  The theorem on the session s1 of u1, created and then switched after u1 changed
  workspace and role, from the empty store: the session has left the sets of the old
  record.
\<close>

theorem index_exact_unless_updated_witness:
  "attached empty_redis ''s1'' \<and> indexed_exactly empty_redis ''s1''
   \<and> without_update ''s1'' empty_redis created_then_switched
   \<and> (case run empty_redis created_then_switched of
         Inl e \<Rightarrow> False
       | Inr r \<Rightarrow>
           attached r ''s1'' \<and> I1 r ''s1''
           \<and> ''s1'' \<in> set (redis_smembers r (role_sessions ''r2''))
           \<and> ''s1'' \<notin> set (redis_smembers r (role_sessions ''r1'')))"
proof -
  have a: "attached empty_redis ''s1''"
    by (simp add: attached_def)
  have i: "indexed_exactly empty_redis ''s1''"
    by (simp add: indexed_exactly_def)
  note w = without_update_created_then_switched
  show ?thesis
  proof (cases "run empty_redis created_then_switched")
    case (Inl e)
    with run_created_then_switched show ?thesis by simp
  next
    case (Inr r)
    with run_created_then_switched have
      g: "redis_get r (session_key ''s1'') =
          Some (Json \<lparr>workspaceId = ''w2'', userId = ''u1'', roleId = ''r2'',
                       permissions = [''write''], baseType = None,
                       subscriptionStatus = None, subscriptionPlan = None\<rparr>)"
      by simp
    from index_exact_unless_updated [OF Inr, of "''s1''"] a i w
    have "attached r ''s1''" and "I1 r ''s1''" by simp_all
    with g have "''s1'' \<in> set (redis_smembers r (role_sessions ''r2''))"
      and "''s1'' \<notin> set (redis_smembers r (role_sessions ''r1''))"
      by (simp_all add: I1_def)
    with a i w Inr \<open>attached r ''s1''\<close> \<open>I1 r ''s1''\<close> show ?thesis by simp
  qed
qed

lemma run_created_then_updated:
  "case run empty_redis created_then_updated of
     Inl e \<Rightarrow> False
   | Inr r \<Rightarrow>
       ''s1'' \<in> set (redis_smembers r (role_sessions ''r1''))
       \<and> redis_get r (session_key ''s1'') =
           Some (Json \<lparr>workspaceId = ''w2'', userId = ''u1'', roleId = ''r2'',
                        permissions = [''write''], baseType = None,
                        subscriptionStatus = None, subscriptionPlan = None\<rparr>)"
  by (simp add: created_then_updated_def scenario_simps)

text \<open>
  C1 as stated fails: a session created for u1 under role r1 and updated after u1 moved to
  role r2 is still a member of \<open>role:r1:sessions\<close>, a stale set.
\<close>

theorem stale_role_set_after_update:
  "case run empty_redis created_then_updated of Inl e \<Rightarrow> False | Inr r \<Rightarrow> \<not> I1 r ''s1''"
proof (cases "run empty_redis created_then_updated")
  case (Inl e)
  with run_created_then_updated show ?thesis by simp
next
  case (Inr r)
  with run_created_then_updated have
    m: "''s1'' \<in> set (redis_smembers r (role_sessions ''r1''))" and
    g: "redis_get r (session_key ''s1'') =
          Some (Json \<lparr>workspaceId = ''w2'', userId = ''u1'', roleId = ''r2'',
                       permissions = [''write''], baseType = None,
                       subscriptionStatus = None, subscriptionPlan = None\<rparr>)"
    by simp_all
  have "\<not> I1 r ''s1''"
  proof
    assume "I1 r ''s1''"
    with g have "\<forall>k. ''s1'' \<in> set (redis_smembers r k) \<longleftrightarrow>
        k \<in> {role_sessions ''r2'', user_sessions ''u1'', workspace_sessions ''w2''}"
      by (simp add: I1_def)
    with m have "role_sessions ''r1'' \<in> {role_sessions ''r2'', user_sessions ''u1'', workspace_sessions ''w2''}"
      by blast
    then show False by simp
  qed
  with Inr show ?thesis by simp
qed

section \<open>Refreshing (C3)\<close>

lemma refreshSession_live:
  assumes "truthy (redis_get (redis ctx) (session_key sid))"
    and "refreshSession svc ctx sid = Inr ctx'"
  shows "\<exists>token. jwtSign svc (now ctx) sid 5184000 = Inr token
           \<and> redis_get (redis ctx') (refreshToken_key sid) = Some (Plain token)
           \<and> redis_exists (redis ctx') (refreshToken_key sid)"
  using assms
  by (auto simp add: refreshSession_def Let_def dest!: redis_createTokens)

lemma redis_exists_iff_get: "redis_exists r k \<longleftrightarrow> redis_get r k \<noteq> None"
  by (simp add: redis_exists_def redis_get_def)

lemma replicate_2: "replicate 2 x = [x, x]"
  by (simp add: numeral_2_eq_2)

lemma run_refreshed_twice:
  "case run empty_redis refreshed_twice of
     Inl e \<Rightarrow> False
   | Inr r \<Rightarrow>
       redis_get r (refreshToken_key ''s1'') = Some (Plain ''s1.ii'')
       \<and> truthy (redis_get r (session_key ''s1''))"
  by (simp add: refreshed_twice_def scenario_simps replicate_2)

lemma run_refreshed_once:
  "case run empty_redis (butlast refreshed_twice) of
     Inl e \<Rightarrow> False
   | Inr r \<Rightarrow>
       redis_get r (refreshToken_key ''s1'') = Some (Plain ''s1.i'')
       \<and> truthy (redis_get r (session_key ''s1''))"
  by (simp add: refreshed_twice_def scenario_simps replicate_2)

text \<open>
  C3 (amended). On a session whose primary record is absent, update changes nothing and
  refresh deletes \<open>refreshToken:{id}\<close> and changes nothing else: every other
  string, every set and every hash is as before, no cookie is set, and neither throws.
\<close>

theorem refresh_and_update_on_absent_session:
  assumes "redis_get (redis ctx) (session_key sid) = None"
  shows "updateSession svc ctx sid uid = ctx
    \<and> refreshSession svc ctx sid = Inr (ctx\<lparr>redis := redis_del (redis ctx) (refreshToken_key sid)\<rparr>)
    \<and> (\<forall>k. k \<noteq> refreshToken_key sid \<longrightarrow>
           strings (redis_del (redis ctx) (refreshToken_key sid)) k = strings (redis ctx) k)
    \<and> sets (redis_del (redis ctx) (refreshToken_key sid)) = sets (redis ctx)
    \<and> hashes (redis_del (redis ctx) (refreshToken_key sid)) = hashes (redis ctx)"
  using assms
  by (simp add: updateSession_def refreshSession_def truthy_def Let_def redis_del_def)

text \<open>
  The theorem on a store that holds a refresh token for s1 and no record of s1.
\<close>

theorem refresh_and_update_on_absent_session_witness:
  "redis_get (redis (request orphan_refreshToken None 0)) (session_key ''s1'') = None
   \<and> updateSession store_v1 (request orphan_refreshToken None 0) ''s1'' ''u1''
       = request orphan_refreshToken None 0
   \<and> refreshSession store_v1 (request orphan_refreshToken None 0) ''s1''
       = Inr (request empty_redis None 0)"
proof -
  have a: "redis_get (redis (request orphan_refreshToken None 0)) (session_key ''s1'') = None"
    by (simp add: request_def orphan_refreshToken_def empty_redis_def redis_get_def redis_set_def
        session_key_def refreshToken_key_def)
  have "redis_del orphan_refreshToken (refreshToken_key ''s1'') = empty_redis"
    by (simp add: orphan_refreshToken_def empty_redis_def redis_del_def redis_set_def)
  with refresh_and_update_on_absent_session [OF a, of store_v1 "''u1''"] a show ?thesis
    by (simp add: request_def)
qed

text \<open>
  C3 as stated fails: on that store refresh is not a no-op, it removes the refresh token.
\<close>

theorem refresh_on_absent_session_deletes_refreshToken:
  "redis_get orphan_refreshToken (session_key ''s1'') = None
   \<and> redis_exists orphan_refreshToken (refreshToken_key ''s1'')
   \<and> (case refreshSession store_v1 (request orphan_refreshToken None 0) ''s1'' of
         Inl e \<Rightarrow> False
       | Inr ctx \<Rightarrow> \<not> redis_exists (redis ctx) (refreshToken_key ''s1''))"
  by (simp add: orphan_refreshToken_def empty_redis_def refreshSession_def request_def Let_def
      truthy_def redis_get_def redis_set_def redis_del_def redis_exists_def
      session_key_def refreshToken_key_def)

section \<open>Deleting a session (C5)\<close>


lemma deleteSession_result:
  assumes "redis_get (redis ctx) (session_key sid) = cache" and "\<forall>s. cache \<noteq> Some (Plain s)"
  shows "deleteSession svc ctx sid =
     Inr (deleteSession_finish svc
            (case cache of
               Some (Json d) \<Rightarrow>
                 ctx\<lparr>redis := srem_indexed (redis_del (redis ctx) (session_key sid)) sid d\<rparr>
             | _ \<Rightarrow> ctx)
            sid)"
proof (cases cache)
  case None
  with assms show ?thesis by (simp add: deleteSession_def)
next
  case (Some v)
  with assms(2) obtain d where "v = Json d" by (cases v) auto
  with Some assms(1) show ?thesis
    by (simp add: deleteSession_def truthy_def JSON_parse_def)
qed




section \<open>The loader (C6)\<close>

lemma lookups_simps [simp]:
  "found_membership (lookups m w r e) = m"
  "found_workspace (lookups m w r e) = w"
  "found_role (lookups m w r e) = r"
  "caught (lookups m w r e) = e"
  by (simp_all add: lookups_def)

lemma load_lookups_once:
  "load_lookups svc uid =
     (case new_ObjectId svc uid of
        Inl e \<Rightarrow> lookups None None None (Some e)
      | Inr u \<Rightarrow>
     (case userSettings_findOne svc u of
        Inl e \<Rightarrow> lookups None None None (Some e)
      | Inr None \<Rightarrow> lookups None None None (Some (NotFound ''userSettings''))
      | Inr (Some us) \<Rightarrow>
     (case new_ObjectId svc (currentWorkspaceId us) of
        Inl e \<Rightarrow> lookups None None None (Some e)
      | Inr wid \<Rightarrow>
     (case workspaceMemberships_findOne svc u wid of
        Inl e \<Rightarrow> lookups None None None (Some e)
      | Inr m \<Rightarrow>
     (case workspaces_findOne svc wid of
        Inl e \<Rightarrow> lookups m None None (Some e)
      | Inr w \<Rightarrow>
     (case m of
        None \<Rightarrow> lookups None w None None
      | Some mem \<Rightarrow>
     (case roles_findOne svc (membership_roleId mem) of
        Inl e \<Rightarrow> lookups m w None (Some e)
      | Inr r \<Rightarrow> lookups m w r None)))))))"
  by (simp add: load_lookups_def split: sum.split option.split)

lemma load_lookups_resolved:
  "resolved svc uid m w \<Longrightarrow>
     found_membership (load_lookups svc uid) = Some m \<and> found_workspace (load_lookups svc uid) = Some w"
  by (auto simp add: resolved_def load_lookups_once split: sum.split option.split)

lemma load_lookups_found_cases:
  "case found_membership (load_lookups svc uid) of
     None \<Rightarrow> True
   | Some m \<Rightarrow>
       (case found_workspace (load_lookups svc uid) of
          None \<Rightarrow> True
        | Some w \<Rightarrow> resolved svc uid m w)"
  by (simp add: load_lookups_once resolved_def split: sum.split option.split)

lemma load_lookups_found:
  "found_membership (load_lookups svc uid) = Some m \<Longrightarrow>
   found_workspace (load_lookups svc uid) = Some w \<Longrightarrow> resolved svc uid m w"
  using load_lookups_found_cases [of svc uid] by simp

lemma load_lookups_role_cases:
  "case found_role (load_lookups svc uid) of
     None \<Rightarrow> True
   | Some r \<Rightarrow>
       (\<exists>m. found_membership (load_lookups svc uid) = Some m
          \<and> roles_findOne svc (membership_roleId m) = Inr (Some r))"
  by (simp add: load_lookups_once split: sum.split option.split)

lemma load_lookups_role:
  "found_role (load_lookups svc uid) = Some r \<Longrightarrow>
     \<exists>m. found_membership (load_lookups svc uid) = Some m
       \<and> roles_findOne svc (membership_roleId m) = Inr (Some r)"
  using load_lookups_role_cases [of svc uid] by simp

lemma load_lookups_settings_missing:
  "new_ObjectId svc uid = Inr u \<Longrightarrow> userSettings_findOne svc u = Inr None \<Longrightarrow>
     load_lookups svc uid = lookups None None None (Some (NotFound ''userSettings''))"
  by (simp add: load_lookups_def)

lemma load_lookups_settings_throw:
  "new_ObjectId svc uid = Inr u \<Longrightarrow> userSettings_findOne svc u = Inl e \<Longrightarrow>
     load_lookups svc uid = lookups None None None (Some e)"
  by (simp add: load_lookups_def)

lemma loadSessionData_cases:
  fixes svc ctx uid
  defines "threw \<equiv> \<lambda>e. (degenerate uid, ctx\<lparr>logged := logged ctx @ [e]\<rparr>)"
  shows "new_ObjectId svc uid = Inl e \<Longrightarrow> loadSessionData svc ctx uid = threw e"
    and "new_ObjectId svc uid = Inr u \<Longrightarrow> userSettings_findOne svc u = Inl e
           \<Longrightarrow> loadSessionData svc ctx uid = threw e"
    and "new_ObjectId svc uid = Inr u \<Longrightarrow> userSettings_findOne svc u = Inr None
           \<Longrightarrow> loadSessionData svc ctx uid = threw (NotFound ''userSettings'')"
    and "new_ObjectId svc uid = Inr u \<Longrightarrow> userSettings_findOne svc u = Inr (Some us)
           \<Longrightarrow> new_ObjectId svc (currentWorkspaceId us) = Inl e
           \<Longrightarrow> loadSessionData svc ctx uid = threw e"
    and "new_ObjectId svc uid = Inr u \<Longrightarrow> userSettings_findOne svc u = Inr (Some us)
           \<Longrightarrow> new_ObjectId svc (currentWorkspaceId us) = Inr wid
           \<Longrightarrow> workspaceMemberships_findOne svc u wid = Inl e
           \<Longrightarrow> loadSessionData svc ctx uid = threw e"
    and "new_ObjectId svc uid = Inr u \<Longrightarrow> userSettings_findOne svc u = Inr (Some us)
           \<Longrightarrow> new_ObjectId svc (currentWorkspaceId us) = Inr wid
           \<Longrightarrow> workspaceMemberships_findOne svc u wid = Inr m
           \<Longrightarrow> workspaces_findOne svc wid = Inl e
           \<Longrightarrow> loadSessionData svc ctx uid = threw e"
  by (simp_all add: threw_def loadSessionData_def load_lookups_once sessionData_from_def
      degenerate_def Let_def)

lemma loadSessionData_found_cases:
  assumes "new_ObjectId svc uid = Inr u" and "userSettings_findOne svc u = Inr (Some us)"
    and "new_ObjectId svc (currentWorkspaceId us) = Inr wid"
    and "workspaces_findOne svc wid = Inr w"
  shows "workspaceMemberships_findOne svc u wid = Inr None \<Longrightarrow>
      loadSessionData svc ctx uid =
        (\<lparr>workspaceId = [], userId = uid, roleId = [], permissions = [], baseType = None,
          subscriptionStatus =
            (case w of None \<Rightarrow> None | Some x \<Rightarrow> workspace_subscriptionStatus x),
          subscriptionPlan =
            (case w of None \<Rightarrow> None | Some x \<Rightarrow> workspace_subscriptionPlan x)\<rparr>,
         ctx)"
    and "workspaceMemberships_findOne svc u wid = Inr (Some mem) \<Longrightarrow>
      roles_findOne svc (membership_roleId mem) = Inl e \<Longrightarrow>
      loadSessionData svc ctx uid =
        (\<lparr>workspaceId = (case w of None \<Rightarrow> [] | Some x \<Rightarrow> workspace_id x),
          userId = uid, roleId = [], permissions = [], baseType = None,
          subscriptionStatus =
            (case w of None \<Rightarrow> None | Some x \<Rightarrow> workspace_subscriptionStatus x),
          subscriptionPlan =
            (case w of None \<Rightarrow> None | Some x \<Rightarrow> workspace_subscriptionPlan x)\<rparr>,
         ctx\<lparr>logged := logged ctx @ [e]\<rparr>)"
    and "workspaceMemberships_findOne svc u wid = Inr (Some mem) \<Longrightarrow>
      roles_findOne svc (membership_roleId mem) = Inr r \<Longrightarrow>
      loadSessionData svc ctx uid =
        (\<lparr>workspaceId = (case w of None \<Rightarrow> [] | Some x \<Rightarrow> workspace_id x),
          userId = uid,
          roleId = (case r of None \<Rightarrow> [] | Some x \<Rightarrow> role_id x),
          permissions = (case r of None \<Rightarrow> [] | Some x \<Rightarrow> role_permissions x),
          baseType = (case r of None \<Rightarrow> None | Some x \<Rightarrow> role_baseType x),
          subscriptionStatus =
            (case w of None \<Rightarrow> None | Some x \<Rightarrow> workspace_subscriptionStatus x),
          subscriptionPlan =
            (case w of None \<Rightarrow> None | Some x \<Rightarrow> workspace_subscriptionPlan x)\<rparr>,
         ctx)"
  using assms
  by (simp_all add: loadSessionData_def load_lookups_once sessionData_from_def Let_def
      split: option.split)

text \<open>
  C6 (amended). The loader returns a record for every outcome of the lookups and changes
  nothing but the log, by at most one entry; the record has the account as \<open>userId\<close>.
  Its \<open>workspaceId\<close> is the identifier of the workspace exactly when the settings,
  the membership and the workspace were all found, and the empty string otherwise; its
  \<open>roleId\<close> and permissions are empty when no role is found. Every exception thrown
  by the ObjectId constructor or by a lookup, and the not-found error the loader raises
  itself when the settings are missing, is caught and logged, and the record is then
  the degenerate one (with the workspace's id when the role lookup is the one that
  throws). A membership, a workspace or a role that is not found is not a failure: the
  fields that depend on it are empty and nothing is logged.
\<close>

theorem loadSessionData_best_effort:
  "(\<exists>d es. loadSessionData svc ctx uid = (d, ctx\<lparr>logged := logged ctx @ es\<rparr>)
      \<and> length es \<le> 1 \<and> userId d = uid)
   \<and> (\<forall>m w. resolved svc uid m w \<longrightarrow>
          workspaceId (fst (loadSessionData svc ctx uid)) = workspace_id w)
   \<and> ((\<nexists>m w. resolved svc uid m w) \<longrightarrow>
          workspaceId (fst (loadSessionData svc ctx uid)) = [])
   \<and> (\<forall>e. new_ObjectId svc uid = Inl e \<longrightarrow>
          loadSessionData svc ctx uid = (degenerate uid, ctx\<lparr>logged := logged ctx @ [e]\<rparr>))
   \<and> (\<forall>u. new_ObjectId svc uid = Inr u \<longrightarrow>
          (\<forall>e. userSettings_findOne svc u = Inl e \<longrightarrow>
             loadSessionData svc ctx uid = (degenerate uid, ctx\<lparr>logged := logged ctx @ [e]\<rparr>))
          \<and> (userSettings_findOne svc u = Inr None \<longrightarrow>
               loadSessionData svc ctx uid =
                 (degenerate uid, ctx\<lparr>logged := logged ctx @ [NotFound ''userSettings'']\<rparr>))
          \<and> (\<forall>us. userSettings_findOne svc u = Inr (Some us) \<longrightarrow>
               (\<forall>e. new_ObjectId svc (currentWorkspaceId us) = Inl e \<longrightarrow>
                  loadSessionData svc ctx uid =
                    (degenerate uid, ctx\<lparr>logged := logged ctx @ [e]\<rparr>))
               \<and> (\<forall>wid. new_ObjectId svc (currentWorkspaceId us) = Inr wid \<longrightarrow>
                    (\<forall>e. workspaceMemberships_findOne svc u wid = Inl e \<longrightarrow>
                       loadSessionData svc ctx uid =
                         (degenerate uid, ctx\<lparr>logged := logged ctx @ [e]\<rparr>))
                    \<and> (\<forall>m e. workspaceMemberships_findOne svc u wid = Inr m
                          \<and> workspaces_findOne svc wid = Inl e \<longrightarrow>
                          loadSessionData svc ctx uid =
                            (degenerate uid, ctx\<lparr>logged := logged ctx @ [e]\<rparr>))
                    \<and> (\<forall>w. workspaces_findOne svc wid = Inr w \<longrightarrow>
                         (workspaceMemberships_findOne svc u wid = Inr None \<longrightarrow>
                            loadSessionData svc ctx uid =
                              (\<lparr>workspaceId = [], userId = uid, roleId = [], permissions = [],
                                baseType = None,
                                subscriptionStatus =
                                  (case w of None \<Rightarrow> None
                                   | Some x \<Rightarrow> workspace_subscriptionStatus x),
                                subscriptionPlan =
                                  (case w of None \<Rightarrow> None
                                   | Some x \<Rightarrow> workspace_subscriptionPlan x)\<rparr>,
                               ctx))
                         \<and> (\<forall>mem. workspaceMemberships_findOne svc u wid = Inr (Some mem) \<longrightarrow>
                              (\<forall>e. roles_findOne svc (membership_roleId mem) = Inl e \<longrightarrow>
                                 loadSessionData svc ctx uid =
                                   (\<lparr>workspaceId =
                                       (case w of None \<Rightarrow> [] | Some x \<Rightarrow> workspace_id x),
                                     userId = uid, roleId = [], permissions = [],
                                     baseType = None,
                                     subscriptionStatus =
                                       (case w of None \<Rightarrow> None
                                        | Some x \<Rightarrow> workspace_subscriptionStatus x),
                                     subscriptionPlan =
                                       (case w of None \<Rightarrow> None
                                        | Some x \<Rightarrow> workspace_subscriptionPlan x)\<rparr>,
                                    ctx\<lparr>logged := logged ctx @ [e]\<rparr>))
                              \<and> (\<forall>r. roles_findOne svc (membership_roleId mem) = Inr r \<longrightarrow>
                                   loadSessionData svc ctx uid =
                                     (\<lparr>workspaceId =
                                         (case w of None \<Rightarrow> [] | Some x \<Rightarrow> workspace_id x),
                                       userId = uid,
                                       roleId = (case r of None \<Rightarrow> [] | Some x \<Rightarrow> role_id x),
                                       permissions =
                                         (case r of None \<Rightarrow> []
                                          | Some x \<Rightarrow> role_permissions x),
                                       baseType =
                                         (case r of None \<Rightarrow> None | Some x \<Rightarrow> role_baseType x),
                                       subscriptionStatus =
                                         (case w of None \<Rightarrow> None
                                          | Some x \<Rightarrow> workspace_subscriptionStatus x),
                                       subscriptionPlan =
                                         (case w of None \<Rightarrow> None
                                          | Some x \<Rightarrow> workspace_subscriptionPlan x)\<rparr>,
                                      ctx)))))))"
proof -
  let ?l = "load_lookups svc uid"
  let ?d = "sessionData_from ?l uid"
  have f: "fst (loadSessionData svc ctx uid) = ?d"
    by (rule fst_loadSessionData)
  have 1: "\<exists>d es. loadSessionData svc ctx uid = (d, ctx\<lparr>logged := logged ctx @ es\<rparr>)
      \<and> length es \<le> 1 \<and> userId d = uid"
  proof (cases "caught ?l")
    case None
    then have "loadSessionData svc ctx uid = (?d, ctx\<lparr>logged := logged ctx @ []\<rparr>)"
      by (simp add: loadSessionData_def Let_def)
    then show ?thesis
      by (intro exI [of _ ?d] exI [of _ "[]"]) (simp add: sessionData_from_def)
  next
    case (Some e)
    then have "loadSessionData svc ctx uid = (?d, ctx\<lparr>logged := logged ctx @ [e]\<rparr>)"
      by (simp add: loadSessionData_def Let_def)
    then show ?thesis
      by (intro exI [of _ ?d] exI [of _ "[e]"]) (simp add: sessionData_from_def)
  qed
  have 2: "\<forall>m w. resolved svc uid m w \<longrightarrow>
      workspaceId (fst (loadSessionData svc ctx uid)) = workspace_id w"
    using load_lookups_resolved [of svc uid] by (auto simp add: f sessionData_from_def)
  have 3: "(\<nexists>m w. resolved svc uid m w) \<longrightarrow>
      workspaceId (fst (loadSessionData svc ctx uid)) = []"
  proof
    assume none: "\<nexists>m w. resolved svc uid m w"
    show "workspaceId (fst (loadSessionData svc ctx uid)) = []"
    proof (cases "found_workspace ?l")
      case None
      then show ?thesis by (simp add: f sessionData_from_def)
    next
      case (Some w)
      with none load_lookups_found [of svc uid _ w] have "found_membership ?l = None"
        by (cases "found_membership ?l") auto
      with Some show ?thesis by (simp add: f sessionData_from_def)
    qed
  qed
  have 4: "\<forall>e. new_ObjectId svc uid = Inl e \<longrightarrow>
      loadSessionData svc ctx uid = (degenerate uid, ctx\<lparr>logged := logged ctx @ [e]\<rparr>)"
    by (simp add: loadSessionData_cases(1))
  show ?thesis
  proof (intro conjI)
    show "\<exists>d es. loadSessionData svc ctx uid = (d, ctx\<lparr>logged := logged ctx @ es\<rparr>)
      \<and> length es \<le> 1 \<and> userId d = uid" by (rule 1)
    show "\<forall>m w. resolved svc uid m w \<longrightarrow>
      workspaceId (fst (loadSessionData svc ctx uid)) = workspace_id w" by (rule 2)
    show "(\<nexists>m w. resolved svc uid m w) \<longrightarrow>
      workspaceId (fst (loadSessionData svc ctx uid)) = []" by (rule 3)
    show "\<forall>e. new_ObjectId svc uid = Inl e \<longrightarrow>
      loadSessionData svc ctx uid = (degenerate uid, ctx\<lparr>logged := logged ctx @ [e]\<rparr>)"
      by (rule 4)
  qed (intro allI impI conjI;
       simp add: loadSessionData_cases loadSessionData_found_cases)
qed

text \<open>
  The theorem on the in-memory store: u1 is a member of w1 with role r1, and the settings
  lookup for u2 throws.
\<close>

theorem loadSessionData_best_effort_witness:
  "resolved store_v3 ''u1''
     \<lparr>membership_roleId = ''r1''\<rparr>
     \<lparr>workspace_id = ''w1'', workspace_subscriptionStatus = None,
      workspace_subscriptionPlan = None\<rparr>
   \<and> workspaceId (fst (loadSessionData store_v3 (request empty_redis None 0) ''u1'')) = ''w1''
   \<and> new_ObjectId store_v3 ''u2'' = Inr ''u2''
   \<and> userSettings_findOne store_v3 ''u2'' = Inl (Thrown ''unavailable'')
   \<and> loadSessionData store_v3 (request empty_redis None 0) ''u2''
       = (degenerate ''u2'', (request empty_redis None 0)\<lparr>logged := [Thrown ''unavailable'']\<rparr>)"
proof -
  let ?m = "\<lparr>membership_roleId = ''r1''\<rparr>"
  let ?w = "\<lparr>workspace_id = ''w1'', workspace_subscriptionStatus = None,
              workspace_subscriptionPlan = None\<rparr>"
  let ?ctx = "request empty_redis None 0"
  have r: "resolved store_v3 ''u1'' ?m ?w"
    by (simp add: resolved_def store_v3_def memory_services_def)
  have o: "new_ObjectId store_v3 ''u2'' = Inr ''u2''"
    by (simp add: store_v3_def memory_services_def)
  have t: "userSettings_findOne store_v3 ''u2'' = Inl (Thrown ''unavailable'')"
    by (simp add: store_v3_def memory_services_def)
  note u1 = loadSessionData_best_effort [of store_v3 ?ctx "''u1''"]
  note u2 = loadSessionData_best_effort [of store_v3 ?ctx "''u2''"]
  from u1 [THEN conjunct2, THEN conjunct1, rule_format, OF r]
  have a: "workspaceId (fst (loadSessionData store_v3 ?ctx ''u1'')) = ''w1''"
    by simp
  from u2 [THEN conjunct2, THEN conjunct2, THEN conjunct2, THEN conjunct2, rule_format, OF o,
      THEN conjunct1, rule_format, OF t]
  have b: "loadSessionData store_v3 ?ctx ''u2''
       = (degenerate ''u2'', ?ctx\<lparr>logged := [Thrown ''unavailable'']\<rparr>)"
    by (simp add: request_def)
  from r a o t b show ?thesis by (intro conjI)
qed

text \<open>
  C6 as stated fails: when the settings of u1 are found and the membership is not, the
  lookup that found nothing is not logged; the loader returns the degenerate record and
  leaves the log empty.
\<close>

theorem missing_membership_is_not_logged:
  "userSettings_findOne store_no_membership ''u1'' = Inr (Some \<lparr>currentWorkspaceId = ''w1''\<rparr>)
   \<and> workspaceMemberships_findOne store_no_membership ''u1'' ''w1'' = Inr None
   \<and> loadSessionData store_no_membership (request empty_redis None 0) ''u1''
       = (degenerate ''u1'', request empty_redis None 0)
   \<and> logged (request empty_redis None 0) = []"
  by (simp add: store_no_membership_def store_v1_def memory_services_def loadSessionData_def
      load_lookups_def lookups_def sessionData_from_def degenerate_def request_def Let_def)

section \<open>Switching the workspace (C7)\<close>





section \<open>Fan-out by role (C8)\<close>


lemma userId_sessionData_from [simp]: "userId (sessionData_from l uid) = uid"
  by (simp add: sessionData_from_def)


lemma truthy_Json [simp]: "truthy (Some (Json d))"
  by (simp add: truthy_def)













section \<open>Issuing tokens (C9)\<close>

text \<open>
  C9. When both credentials can be signed and the configured public URL parses,
  createTokens signs an access credential with a lifetime of 86400 seconds and a refresh
  credential with a lifetime of 5184000 seconds, stores the refresh credential under
  \<open>refreshToken:{id}\<close> with a TTL of 5184000 seconds, and sets the cookie
  \<open>refreshToken\<close> (path \<open>/session\<close>, maxAge 5184000) and then the cookie
  \<open>accessToken\<close> (path \<open>/\<close>, maxAge 86400), both HTTP-only, same-site and
  signed, and secure exactly when the protocol of the public URL is \<open>https:\<close>.
\<close>

theorem createTokens_issues_credentials:
  assumes "jwtSign svc (now ctx) sid 86400 = Inr access"
    and "jwtSign svc (now ctx) sid 5184000 = Inr refresh"
    and "URL_protocol svc (PUBLIC_API_URL svc) = Inr protocol"
  shows "\<exists>ctx'. createTokens svc ctx sid = Inr ctx'
    \<and> strings (redis ctx') (refreshToken_key sid) = Some (Plain refresh, 5184000)
    \<and> resCookies ctx' =
        resCookies ctx
        @ [SetCookie ''refreshToken'' refresh
             \<lparr>httpOnly = True, sameSite = True, signed = True,
              secure = (protocol = ''https:''), domain = COOKIE_DOMAIN svc,
              path = ''/session'', maxAge = 5184000\<rparr>,
           SetCookie ''accessToken'' access
             \<lparr>httpOnly = True, sameSite = True, signed = True,
              secure = (protocol = ''https:''), domain = COOKIE_DOMAIN svc,
              path = ''/'', maxAge = 86400\<rparr>]"
  using assms
  by (simp add: createTokens_def cookieOptions_def redis_set_def)

text \<open>
  The theorem on the in-memory double, whose public URL is \<open>https://api.example.com\<close>.
\<close>

theorem createTokens_issues_credentials_witness:
  "jwtSign store_v1 1 ''s1'' 86400 = Inr ''s1.i''
   \<and> jwtSign store_v1 1 ''s1'' 5184000 = Inr ''s1.i''
   \<and> URL_protocol store_v1 (PUBLIC_API_URL store_v1) = Inr ''https:''
   \<and> (case createTokens store_v1 (request empty_redis None 1) ''s1'' of
         Inl e \<Rightarrow> False
       | Inr ctx' \<Rightarrow>
           strings (redis ctx') (refreshToken_key ''s1'') = Some (Plain ''s1.i'', 5184000)
           \<and> resCookies ctx' =
               [SetCookie ''refreshToken'' ''s1.i''
                  \<lparr>httpOnly = True, sameSite = True, signed = True, secure = True,
                   domain = ''example.com'', path = ''/session'', maxAge = 5184000\<rparr>,
                SetCookie ''accessToken'' ''s1.i''
                  \<lparr>httpOnly = True, sameSite = True, signed = True, secure = True,
                   domain = ''example.com'', path = ''/'', maxAge = 86400\<rparr>])"
proof -
  let ?ctx = "request empty_redis None 1"
  have a: "jwtSign store_v1 (now ?ctx) ''s1'' 86400 = Inr ''s1.i''"
    and r: "jwtSign store_v1 (now ?ctx) ''s1'' 5184000 = Inr ''s1.i''"
    and p: "URL_protocol store_v1 (PUBLIC_API_URL store_v1) = Inr ''https:''"
    by (simp_all add: store_v1_def memory_services_def request_def)
  have d: "COOKIE_DOMAIN store_v1 = ''example.com''"
    by (simp add: store_v1_def memory_services_def)
  from createTokens_issues_credentials [OF a r p] a r p d show ?thesis
    by (auto simp add: request_def)
qed

section \<open>The git-sync handler leaves the directories alone (C10)\<close>

text \<open>
  C10. Whenever the handler returns, in whichever branch, the directories of the result
  are the directories it was given; it fails to return only when the contents lookup or
  the output processor throws.
\<close>

theorem handleContentPieceUpdated_keeps_directories:
  "case handleContentPieceUpdated svc dirs recs piece of
     Inr result \<Rightarrow> directories result = dirs
   | Inl e \<Rightarrow>
       contents_findOne svc (piece_id piece) = Inl e
       \<or> (\<exists>buffer. process svc buffer piece = Inl e)"
  by (auto simp add: handleContentPieceUpdated_def Let_def split: option.split sum.split)

text \<open>
  The theorem on a record that moved: the piece p1, synced as \<open>docs/old.md\<close>, is now
  named \<open>new.md\<close>.
\<close>

theorem handleContentPieceUpdated_keeps_directories_witness:
  "handleContentPieceUpdated memory_git_services docs_directories docs_records renamed_piece =
     Inr \<lparr>directories = docs_directories,
          records =
            [\<lparr>record_path = ''docs/old.md'', contentPieceId = ''p1'', currentHash = [],
              syncedHash = ''h0''\<rparr>,
             \<lparr>record_path = ''docs/new.md'', contentPieceId = ''p1'',
              currentHash = ''md5 of hello'', syncedHash = []\<rparr>]\<rparr>"
proof -
  have "records (projr (handleContentPieceUpdated memory_git_services docs_directories
          docs_records renamed_piece)) =
      [\<lparr>record_path = ''docs/old.md'', contentPieceId = ''p1'', currentHash = [],
        syncedHash = ''h0''\<rparr>,
       \<lparr>record_path = ''docs/new.md'', contentPieceId = ''p1'',
        currentHash = ''md5 of hello'', syncedHash = []\<rparr>]"
    and "\<not> isl (handleContentPieceUpdated memory_git_services docs_directories docs_records
          renamed_piece)"
    by (simp_all add: handleContentPieceUpdated_def Let_def memory_git_services_def
        docs_directories_def docs_records_def renamed_piece_def newRecordPath_def)
  with handleContentPieceUpdated_keeps_directories
    [where svc = memory_git_services and dirs = docs_directories and recs = docs_records
      and piece = renamed_piece]
  show ?thesis
    by (cases "handleContentPieceUpdated memory_git_services docs_directories docs_records
          renamed_piece") auto
qed

section \<open>Resolving a credential (C2, C4)\<close>

lemma getSessionId_try_cases:
  "case getSessionId_try svc ctx t of
     Inl e \<Rightarrow> True
   | Inr res \<Rightarrow>
       (case fst res of
          None \<Rightarrow> snd res = ctx
        | Some sid \<Rightarrow>
            presented svc ctx t sid
            \<and> (t = refreshToken \<longrightarrow> redis_exists (redis ctx) (refreshToken_key sid))
            \<and> snd res = remember_on_socket ctx sid)"
  by (simp add: getSessionId_try_def presented_def Let_def split: sum.split option.split)

lemma getSessionId_try_presented:
  assumes "presented svc ctx t sid"
  shows "getSessionId_try svc ctx t =
     Inr (if t = refreshToken \<and> \<not> redis_exists (redis ctx) (refreshToken_key sid)
          then (None, ctx) else (Some sid, remember_on_socket ctx sid))"
  using assms by (auto simp add: presented_def getSessionId_try_def)

lemma getSessionId_uncached_Some:
  assumes "socket_sessionId ctx = None"
  shows "fst (getSessionId svc ctx t) = Some sid \<longleftrightarrow>
     presented svc ctx t sid
     \<and> (t = refreshToken \<longrightarrow> redis_exists (redis ctx) (refreshToken_key sid))"
proof
  assume r: "fst (getSessionId svc ctx t) = Some sid"
  show "presented svc ctx t sid
     \<and> (t = refreshToken \<longrightarrow> redis_exists (redis ctx) (refreshToken_key sid))"
  proof (cases "getSessionId_try svc ctx t")
    case (Inl e)
    with r assms show ?thesis by (simp add: getSessionId_def)
  next
    case (Inr res)
    with r assms have "fst res = Some sid" by (simp add: getSessionId_def)
    with getSessionId_try_cases [where svc = svc and ctx = ctx and t = t] Inr
    show ?thesis by simp
  qed
next
  assume "presented svc ctx t sid
     \<and> (t = refreshToken \<longrightarrow> redis_exists (redis ctx) (refreshToken_key sid))"
  with assms show "fst (getSessionId svc ctx t) = Some sid"
    by (auto simp add: getSessionId_def getSessionId_try_presented)
qed

lemma getSessionId_uncached_None:
  assumes "socket_sessionId ctx = None" and "fst (getSessionId svc ctx t) = None"
  shows "getSessionId svc ctx t = (None, ctx)"
proof (cases "getSessionId_try svc ctx t")
  case (Inl e)
  with assms show ?thesis by (simp add: getSessionId_def)
next
  case (Inr res)
  with assms have n: "fst res = None" and g: "getSessionId svc ctx t = res"
    by (simp_all add: getSessionId_def)
  with getSessionId_try_cases [where svc = svc and ctx = ctx and t = t] Inr
  have "snd res = ctx" by simp
  with n g show ?thesis by (cases res) simp
qed

lemma getSessionId_refresh_presented:
  assumes "socket_sessionId ctx = None" and "presented svc ctx refreshToken sid"
  shows "fst (getSessionId svc ctx refreshToken) =
           (if redis_exists (redis ctx) (refreshToken_key sid) then Some sid else None)"
  using assms by (simp add: getSessionId_def getSessionId_try_presented)

lemma getSessionId_uncached_rejects:
  assumes "socket_sessionId ctx = None"
  shows "parseCookie svc (case cookieHeader ctx of None \<Rightarrow> [] | Some h \<Rightarrow> h) = Inl e
           \<Longrightarrow> getSessionId svc ctx t = (None, ctx)"
    and "parseCookie svc (case cookieHeader ctx of None \<Rightarrow> [] | Some h \<Rightarrow> h) = Inr cookies
           \<Longrightarrow> cookies (tokenName t) = None
           \<Longrightarrow> getSessionId svc ctx t = (None, ctx)"
    and "parseCookie svc (case cookieHeader ctx of None \<Rightarrow> [] | Some h \<Rightarrow> h) = Inr cookies
           \<Longrightarrow> cookies (tokenName t) = Some c \<Longrightarrow> unsignCookie svc c = Inr None
           \<Longrightarrow> getSessionId svc ctx t = (None, ctx)"
    and "parseCookie svc (case cookieHeader ctx of None \<Rightarrow> [] | Some h \<Rightarrow> h) = Inr cookies
           \<Longrightarrow> cookies (tokenName t) = Some c \<Longrightarrow> unsignCookie svc c = Inl e
           \<Longrightarrow> getSessionId svc ctx t = (None, ctx)"
    and "parseCookie svc (case cookieHeader ctx of None \<Rightarrow> [] | Some h \<Rightarrow> h) = Inr cookies
           \<Longrightarrow> cookies (tokenName t) = Some c \<Longrightarrow> unsignCookie svc c = Inr (Some token)
           \<Longrightarrow> jwt_verify svc (now ctx) token = Inl e
           \<Longrightarrow> getSessionId svc ctx t = (None, ctx)"
    and "parseCookie svc (case cookieHeader ctx of None \<Rightarrow> [] | Some h \<Rightarrow> h) = Inr cookies
           \<Longrightarrow> cookies (tokenName refreshToken) = Some c
           \<Longrightarrow> unsignCookie svc c = Inr (Some token)
           \<Longrightarrow> jwt_verify svc (now ctx) token = Inr sid
           \<Longrightarrow> \<not> redis_exists (redis ctx) (refreshToken_key sid)
           \<Longrightarrow> getSessionId svc ctx refreshToken = (None, ctx)"
  using assms
  by (simp_all add: getSessionId_def getSessionId_try_def tokenName_def)

lemma deleteSession_revokes:
  "deleteSession svc ctx sid = Inr ctx' \<Longrightarrow> \<not> redis_exists (redis ctx') (refreshToken_key sid)"
  by (auto simp add: deleteSession_def redis_deleteSession_finish
      split: option.splits sum.splits if_splits)

lemma refreshSession_dead:
  "\<not> truthy (redis_get (redis ctx) (session_key sid)) \<Longrightarrow> refreshSession svc ctx sid = Inr ctx'
     \<Longrightarrow> \<not> redis_exists (redis ctx') (refreshToken_key sid)"
  by (auto simp add: refreshSession_def Let_def)

lemma get_refreshSession:
  "refreshSession svc ctx sid = Inr ctx' \<Longrightarrow>
     redis_get (redis ctx') (session_key s) = redis_get (redis ctx) (session_key s)"
  by (auto simp add: refreshSession_def Let_def split: if_splits dest!: redis_createTokens)

lemma run_refreshed_once_record:
  "case run empty_redis (butlast refreshed_twice) of
     Inl e \<Rightarrow> False
   | Inr r \<Rightarrow> (\<forall>p. redis_get r (session_key ''s1'') \<noteq> Some (Plain p))"
  by (simp add: refreshed_twice_def scenario_simps replicate_2)

lemma memory_presented:
  "presented (memory_services ms rs fs) (request r (Some ''refreshToken=s1.i'') t) refreshToken ''s1''"
  by (simp add: presented_def memory_services_def request_def tokenName_def)

text \<open>
  C2 (amended). On a request whose socket holds no cached session identifier and that
  presents a refresh credential of the session that still verifies, resolution yields
  the session identifier exactly when \<open>refreshToken:{id}\<close> exists, whatever its
  value. A refresh of the live session leaves that key holding the credential just
  issued, so after the second of two refreshes the credential of the first still
  resolves; it resolves to absent once the key is gone, as after delete or after a
  refresh of a session whose record is absent.
\<close>

theorem first_refresh_credential_still_resolves:
  assumes "socket_sessionId req = None" and "presented svc req refreshToken sid"
  shows "fst (getSessionId svc req refreshToken) =
           (if redis_exists (redis req) (refreshToken_key sid) then Some sid else None)
    \<and> (\<forall>ctx ctx'. truthy (redis_get (redis ctx) (session_key sid))
           \<and> refreshSession svc ctx sid = Inr ctx' \<and> redis req = redis ctx' \<longrightarrow>
           fst (getSessionId svc req refreshToken) = Some sid
           \<and> (\<exists>current. jwtSign svc (now ctx) sid 5184000 = Inr current
                 \<and> redis_get (redis ctx') (refreshToken_key sid) = Some (Plain current)))
    \<and> (\<forall>ctx ctx'. deleteSession svc ctx sid = Inr ctx' \<and> redis req = redis ctx' \<longrightarrow>
           fst (getSessionId svc req refreshToken) = None)
    \<and> (\<forall>ctx ctx'. \<not> truthy (redis_get (redis ctx) (session_key sid))
           \<and> refreshSession svc ctx sid = Inr ctx' \<and> redis req = redis ctx' \<longrightarrow>
           fst (getSessionId svc req refreshToken) = None)"
proof -
  note resolves = getSessionId_refresh_presented [OF assms]
  have live: "fst (getSessionId svc req refreshToken) = Some sid
      \<and> (\<exists>current. jwtSign svc (now ctx) sid 5184000 = Inr current
            \<and> redis_get (redis ctx') (refreshToken_key sid) = Some (Plain current))"
    if "truthy (redis_get (redis ctx) (session_key sid))"
      and "refreshSession svc ctx sid = Inr ctx'" and "redis req = redis ctx'" for ctx ctx'
    using refreshSession_live [OF that(1,2)] resolves that(3) by auto
  have deleted: "fst (getSessionId svc req refreshToken) = None"
    if "deleteSession svc ctx sid = Inr ctx'" and "redis req = redis ctx'" for ctx ctx'
    using deleteSession_revokes [OF that(1)] resolves that(2) by simp
  have dead: "fst (getSessionId svc req refreshToken) = None"
    if "\<not> truthy (redis_get (redis ctx) (session_key sid))"
      and "refreshSession svc ctx sid = Inr ctx'" and "redis req = redis ctx'" for ctx ctx'
    using refreshSession_dead [OF that(1,2)] resolves that(3) by simp
  from resolves live deleted dead show ?thesis by blast
qed

text \<open>
  The theorem at the scenario of the claim: session s1 created and refreshed once, the
  second refresh, and the first refresh's credential \<open>s1.i\<close> presented afterwards;
  then the session is deleted and the credential presented again.
\<close>

theorem first_refresh_credential_still_resolves_witness:
  "case run empty_redis (butlast refreshed_twice) of
     Inl e \<Rightarrow> False
   | Inr r1 \<Rightarrow>
       truthy (redis_get r1 (session_key ''s1''))
       \<and> (case refreshSession store_v1 (request r1 (Some ''refreshToken=s1.i'') 2) ''s1'' of
             Inl e \<Rightarrow> False
           | Inr ctx' \<Rightarrow>
               fst (getSessionId store_v1 (request (redis ctx') (Some ''refreshToken=s1.i'') 3)
                      refreshToken) = Some ''s1''
               \<and> (case deleteSession store_v1 (request (redis ctx') None 4) ''s1'' of
                     Inl e \<Rightarrow> False
                   | Inr ctx'' \<Rightarrow>
                       fst (getSessionId store_v1
                              (request (redis ctx'') (Some ''refreshToken=s1.i'') 5)
                              refreshToken) = None))"
proof (cases "run empty_redis (butlast refreshed_twice)")
  case (Inl e)
  with run_refreshed_once show ?thesis by simp
next
  case (Inr r1)
  with run_refreshed_once have live: "truthy (redis_get r1 (session_key ''s1''))" by simp
  let ?ctx = "request r1 (Some ''refreshToken=s1.i'') 2"
  from live have live': "truthy (redis_get (redis ?ctx) (session_key ''s1''))"
    by (simp add: request_def)
  obtain ctx' where second: "refreshSession store_v1 ?ctx ''s1'' = Inr ctx'"
    using live'
    by (simp add: refreshSession_def createTokens_def store_v1_def memory_services_def Let_def)
  let ?d = "request (redis ctx') None 4"
  have "\<forall>s. redis_get (redis ?d) (session_key ''s1'') \<noteq> Some (Plain s)"
    using Inr run_refreshed_once_record get_refreshSession [OF second, of "''s1''"]
    by (simp add: request_def)
  then obtain ctx'' where del: "deleteSession store_v1 ?d ''s1'' = Inr ctx''"
    using deleteSession_result [of ?d "''s1''" "redis_get (redis ?d) (session_key ''s1'')" store_v1]
    by simp
  let ?req = "request (redis ctx') (Some ''refreshToken=s1.i'') 3"
  let ?req' = "request (redis ctx'') (Some ''refreshToken=s1.i'') 5"
  have n: "socket_sessionId ?req = None" "socket_sessionId ?req' = None"
    by (simp_all add: request_def socket_sessionId_def)
  have p: "presented store_v1 ?req refreshToken ''s1''"
    "presented store_v1 ?req' refreshToken ''s1''"
    by (simp_all add: store_v1_def memory_presented)
  have same: "redis ?req = redis ctx'" "redis ?req' = redis ctx''"
    by (simp_all add: request_def)
  from first_refresh_credential_still_resolves [OF n(1) p(1)] live' second same(1)
  have a: "fst (getSessionId store_v1 ?req refreshToken) = Some ''s1''"
    by blast
  from first_refresh_credential_still_resolves [OF n(2) p(2)] del same(2)
  have b: "fst (getSessionId store_v1 ?req' refreshToken) = None"
    by blast
  from Inr live second del a b show ?thesis by simp
qed

text \<open>
  C2 as stated fails: s1 is created at time 0 and refreshed at times 1 and 2; the first
  refresh stores the credential \<open>s1.i\<close>, the second replaces it by \<open>s1.ii\<close>,
  and resolving \<open>s1.i\<close> at time 3 yields s1, not absent.
\<close>

theorem replayed_refresh_credential_resolves:
  "case run empty_redis (butlast refreshed_twice) of
     Inl e \<Rightarrow> False
   | Inr r1 \<Rightarrow>
       redis_get r1 (refreshToken_key ''s1'') = Some (Plain ''s1.i'')
       \<and> (case run empty_redis refreshed_twice of
             Inl e \<Rightarrow> False
           | Inr r2 \<Rightarrow>
               redis_get r2 (refreshToken_key ''s1'') = Some (Plain ''s1.ii'')
               \<and> fst (getSessionId store_v1 (request r2 (Some ''refreshToken=s1.i'') 3) refreshToken)
                   = Some ''s1'')"
proof -
  have "fst (getSessionId store_v1 (request r (Some ''refreshToken=s1.i'') 3) refreshToken) = Some ''s1''"
    if "redis_get r (refreshToken_key ''s1'') = Some (Plain ''s1.ii'')" for r
  proof -
    from that have "redis_exists r (refreshToken_key ''s1'')"
      by (simp add: redis_exists_iff_get)
    then show ?thesis
      by (simp add: getSessionId_def getSessionId_try_def socket_sessionId_def tokenName_def
          remember_on_socket_def request_def store_v1_def memory_services_def Let_def)
  qed
  with run_refreshed_once run_refreshed_twice show ?thesis
    by (auto split: sum.splits)
qed

text \<open>
  C4 (amended). When the socket of the request holds no session identifier, resolution of
  the refresh kind returns an identifier exactly when the request presents a refresh
  credential that verifies for it and \<open>refreshToken:{id}\<close> exists in the store at
  that time, and otherwise it returns absent and leaves the request as it was: so does
  a cookie header that does not parse, a cookie that is missing or does not unsign
  (tampered), a token that does not verify (tampered or expired) and a credential whose
  key is gone (revoked); none throws. When the socket holds an identifier, that
  identifier is returned and the store is not read.
\<close>

theorem refresh_resolution_checks_store_unless_cached:
  "(case socket_sessionId ctx of
      Some cached \<Rightarrow> getSessionId svc ctx refreshToken = (Some cached, ctx)
    | None \<Rightarrow>
        (\<forall>sid. fst (getSessionId svc ctx refreshToken) = Some sid \<longleftrightarrow>
           presented svc ctx refreshToken sid
           \<and> redis_exists (redis ctx) (refreshToken_key sid))
        \<and> (fst (getSessionId svc ctx refreshToken) = None \<longrightarrow>
             getSessionId svc ctx refreshToken = (None, ctx))
        \<and> (\<forall>e. parseCookie svc (case cookieHeader ctx of None \<Rightarrow> [] | Some h \<Rightarrow> h) = Inl e \<longrightarrow>
             getSessionId svc ctx refreshToken = (None, ctx))
        \<and> (\<forall>cookies.
             parseCookie svc (case cookieHeader ctx of None \<Rightarrow> [] | Some h \<Rightarrow> h) = Inr cookies \<longrightarrow>
             (cookies ''refreshToken'' = None \<longrightarrow>
                getSessionId svc ctx refreshToken = (None, ctx))
             \<and> (\<forall>c. cookies ''refreshToken'' = Some c \<longrightarrow>
                  (unsignCookie svc c = Inr None \<longrightarrow>
                     getSessionId svc ctx refreshToken = (None, ctx))
                  \<and> (\<forall>e. unsignCookie svc c = Inl e \<longrightarrow>
                       getSessionId svc ctx refreshToken = (None, ctx))
                  \<and> (\<forall>token. unsignCookie svc c = Inr (Some token) \<longrightarrow>
                       (\<forall>e. jwt_verify svc (now ctx) token = Inl e \<longrightarrow>
                          getSessionId svc ctx refreshToken = (None, ctx))
                       \<and> (\<forall>sid. jwt_verify svc (now ctx) token = Inr sid
                             \<and> \<not> redis_exists (redis ctx) (refreshToken_key sid) \<longrightarrow>
                             getSessionId svc ctx refreshToken = (None, ctx))))))"
proof (cases "socket_sessionId ctx")
  case (Some cached)
  then show ?thesis by (simp add: getSessionId_def)
next
  case None
  have 1: "fst (getSessionId svc ctx refreshToken) = Some sid \<longleftrightarrow>
      presented svc ctx refreshToken sid \<and> redis_exists (redis ctx) (refreshToken_key sid)" for sid
    using getSessionId_uncached_Some [OF None, of svc refreshToken sid] by simp
  have 2: "fst (getSessionId svc ctx refreshToken) = None \<longrightarrow>
      getSessionId svc ctx refreshToken = (None, ctx)"
    using getSessionId_uncached_None [OF None] by blast
  have 3: "getSessionId svc ctx refreshToken = (None, ctx)"
    if "parseCookie svc (case cookieHeader ctx of None \<Rightarrow> [] | Some h \<Rightarrow> h) = Inl e" for e
    using that None by (simp add: getSessionId_def getSessionId_try_def)
  have 4: "(cookies ''refreshToken'' = None \<longrightarrow>
                getSessionId svc ctx refreshToken = (None, ctx))
             \<and> (\<forall>c. cookies ''refreshToken'' = Some c \<longrightarrow>
                  (unsignCookie svc c = Inr None \<longrightarrow>
                     getSessionId svc ctx refreshToken = (None, ctx))
                  \<and> (\<forall>e. unsignCookie svc c = Inl e \<longrightarrow>
                       getSessionId svc ctx refreshToken = (None, ctx))
                  \<and> (\<forall>token. unsignCookie svc c = Inr (Some token) \<longrightarrow>
                       (\<forall>e. jwt_verify svc (now ctx) token = Inl e \<longrightarrow>
                          getSessionId svc ctx refreshToken = (None, ctx))
                       \<and> (\<forall>sid. jwt_verify svc (now ctx) token = Inr sid
                             \<and> \<not> redis_exists (redis ctx) (refreshToken_key sid) \<longrightarrow>
                             getSessionId svc ctx refreshToken = (None, ctx))))"
    if "parseCookie svc (case cookieHeader ctx of None \<Rightarrow> [] | Some h \<Rightarrow> h) = Inr cookies"
    for cookies
    by (intro conjI allI impI)
      (use that None in \<open>simp_all add: getSessionId_def getSessionId_try_def tokenName_def\<close>)
  show ?thesis
    unfolding None option.case using 1 2 3 4 by blast
qed

text \<open>
  The theorem on a request without a socket that presents a valid credential of s1: it
  resolves while the refresh token of s1 is in the store, and not on the empty store.
\<close>

theorem refresh_resolution_checks_store_unless_cached_witness:
  "socket_sessionId (request orphan_refreshToken (Some ''refreshToken=s1.i'') 3) = None
   \<and> presented store_v1 (request orphan_refreshToken (Some ''refreshToken=s1.i'') 3)
        refreshToken ''s1''
   \<and> redis_exists orphan_refreshToken (refreshToken_key ''s1'')
   \<and> fst (getSessionId store_v1 (request orphan_refreshToken (Some ''refreshToken=s1.i'') 3)
            refreshToken) = Some ''s1''
   \<and> \<not> redis_exists empty_redis (refreshToken_key ''s1'')
   \<and> getSessionId store_v1 (request empty_redis (Some ''refreshToken=s1.i'') 3) refreshToken
       = (None, request empty_redis (Some ''refreshToken=s1.i'') 3)"
proof -
  let ?ctx = "request orphan_refreshToken (Some ''refreshToken=s1.i'') 3"
  let ?gone = "request empty_redis (Some ''refreshToken=s1.i'') 3"
  have n: "socket_sessionId ?ctx = None" "socket_sessionId ?gone = None"
    by (simp_all add: request_def socket_sessionId_def)
  have p: "presented store_v1 ?ctx refreshToken ''s1''"
    by (simp add: store_v1_def memory_presented)
  have e: "redis_exists (redis ?ctx) (refreshToken_key ''s1'')"
    by (simp add: orphan_refreshToken_def request_def)
  have g: "\<not> redis_exists (redis ?gone) k" for k
    by (simp add: request_def)
  note here = refresh_resolution_checks_store_unless_cached
    [where ctx = ?ctx and svc = store_v1, unfolded n(1) option.case]
  note there = refresh_resolution_checks_store_unless_cached
    [where ctx = ?gone and svc = store_v1, unfolded n(2) option.case]
  from here [THEN conjunct1, rule_format, of "''s1''"] p e
  have a: "fst (getSessionId store_v1 ?ctx refreshToken) = Some ''s1''"
    by simp
  from there [THEN conjunct1, rule_format] g
  have "fst (getSessionId store_v1 ?gone refreshToken) \<noteq> Some sid" for sid
    by simp
  then have "fst (getSessionId store_v1 ?gone refreshToken) = None"
    by (cases "fst (getSessionId store_v1 ?gone refreshToken)") auto
  with there [THEN conjunct2, THEN conjunct1]
  have b: "getSessionId store_v1 ?gone refreshToken = (None, ?gone)"
    by (rule_tac mp)
  from e g [of "refreshToken_key ''s1''"] have
    "redis_exists orphan_refreshToken (refreshToken_key ''s1'')"
    "\<not> redis_exists empty_redis (refreshToken_key ''s1'')"
    by (simp_all add: request_def)
  with n(1) p a b show ?thesis by (intro conjI)
qed

text \<open>
  C4 as stated fails: on a socket connection, a first resolution by the access credential
  stores s1 on the socket; a resolution of the refresh kind on the same connection then
  returns s1 although the store holds no \<open>refreshToken:s1\<close>.
\<close>

theorem cached_socket_bypasses_revocation_check:
  "socket_sessionId websocket_request = None
   \<and> fst (getSessionId store_v1 (snd (getSessionId store_v1 websocket_request accessToken))
            refreshToken) = Some ''s1''
   \<and> \<not> redis_exists (redis (snd (getSessionId store_v1 websocket_request accessToken)))
          (refreshToken_key ''s1'')"
proof -
  have "getSessionId store_v1 websocket_request accessToken =
          (Some ''s1'', websocket_request\<lparr>socket := Some \<lparr>sessionId = Some ''s1'', dataListeners = 1\<rparr>\<rparr>)"
    by (simp add: getSessionId_def getSessionId_try_def socket_sessionId_def tokenName_def
        remember_on_socket_def websocket_request_def store_v1_def memory_services_def Let_def)
  then show ?thesis
    by (simp add: getSessionId_def socket_sessionId_def websocket_request_def
        empty_redis_def redis_exists_def)
qed

end
